theory Spec2Isabelle
  imports Complex_Main "HOL-Library.Product_Lexorder" "HOL-Library.Sublist" "HOL-Library.Log_Nat"
begin

section \<open>Strings, Unicode tables and time\<close>

text \<open>
  A Python \<open>str\<close> is a sequence of Unicode code points, and \<open>len\<close>, \<open>in\<close> and the
  regular expressions of the program count code points. A string is therefore a list of code
  points. A number of type \<open>float\<close> is a real. In the importance scorer the arithmetic is
  exact: every constant of the program (\<open>0.15\<close>, \<open>0.7\<close>, ...) is the decimal
  fraction that is written in the source. The relevance ranker orders the candidates by their
  scores and cuts them at \<open>0.2\<close>, and there the scores are the binary64 numbers that
  the runtime computes (section on binary64 arithmetic below).
\<close>

type_synonym ustring = "nat list"

definition ascii :: "string \<Rightarrow> ustring" where
  "ascii s = map of_char s"

text \<open>
  \<open>str.lower\<close> and the class \<open>\w\<close> of module \<open>re\<close> consult the Unicode character
  database of the Python runtime. The database is a parameter of the model; \<open>ascii_db\<close> is
  its restriction to Basic Latin, used to run the model on texts in ASCII and Arabic script
  (whose letters have no case and are matched by the explicit ranges of the program's pattern).
\<close>

record unicode_db =
  str_lower :: "ustring \<Rightarrow> ustring"
  re_w :: "nat \<Rightarrow> bool"

definition ascii_db :: unicode_db where
  "ascii_db =
     \<lparr>str_lower = map (\<lambda>c. if 65 \<le> c \<and> c \<le> 90 then c + 32 else c),
      re_w = (\<lambda>c. (48 \<le> c \<and> c \<le> 57) \<or> (65 \<le> c \<and> c \<le> 90) \<or> c = 95 \<or> (97 \<le> c \<and> c \<le> 122))\<rparr>"

text \<open>The test \<open>k in s\<close> on strings: \<open>k\<close> occurs in \<open>s\<close> as a contiguous run.\<close>

fun starts_with :: "ustring \<Rightarrow> ustring \<Rightarrow> bool" where
  "starts_with [] s = True"
| "starts_with (k # ks) [] = False"
| "starts_with (k # ks) (c # cs) = (k = c \<and> starts_with ks cs)"

fun str_contains :: "ustring \<Rightarrow> ustring \<Rightarrow> bool" where
  "str_contains k [] = (k = [])"
| "str_contains k (c # cs) = (starts_with k (c # cs) \<or> str_contains k cs)"

text \<open>
  A naive \<open>datetime\<close> is the number of microseconds since 1970-01-01T00:00:00, and a
  \<open>timedelta\<close> a number of microseconds. Python normalises a \<open>timedelta\<close> to
  \<open>days\<close>, \<open>seconds\<close> (from 0 to 86399) and \<open>microseconds\<close>, with \<open>days\<close> rounded
  towards minus infinity.
\<close>

type_synonym datetime = int
type_synonym timedelta = int

definition us_per_day :: int where
  "us_per_day = 86400000000"

definition td_days :: "timedelta \<Rightarrow> int" where
  "td_days td = td div us_per_day"

definition td_seconds :: "timedelta \<Rightarrow> int" where
  "td_seconds td = (td mod us_per_day) div 1000000"

text \<open>
  \<open>strftime("%Y-%m-%d")\<close>: the proleptic Gregorian date of a day number. The month and the
  day are padded to two digits; the year (from 1 to 9999 for a \<open>datetime\<close>) is printed
  by the C library as the decimal number, without padding (\<open>999-03-05\<close>).
\<close>

definition digit_char :: "int \<Rightarrow> nat" where
  "digit_char d = nat (48 + d mod 10)"

definition pad2 :: "int \<Rightarrow> ustring" where
  "pad2 n = [digit_char (n div 10), digit_char n]"

fun decimal :: "nat \<Rightarrow> ustring" where
  "decimal n = (if n < 10 then [48 + n] else decimal (n div 10) @ [48 + n mod 10])"

declare decimal.simps [simp del]

definition civil_from_days :: "int \<Rightarrow> int \<times> int \<times> int" where
  "civil_from_days days =
     (let z = days + 719468;
          era = z div 146097;
          doe = z - era * 146097;
          yoe = (doe - doe div 1460 + doe div 36524 - doe div 146096) div 365;
          doy = doe - (365 * yoe + yoe div 4 - yoe div 100);
          mp = (5 * doy + 2) div 153;
          d = doy - (153 * mp + 2) div 5 + 1;
          m = (if mp < 10 then mp + 3 else mp - 9);
          y = yoe + era * 400 + (if m \<le> 2 then 1 else 0)
      in (y, m, d))"

definition strftime_ymd :: "datetime \<Rightarrow> ustring" where
  "strftime_ymd t =
     (case civil_from_days (t div us_per_day) of
        (y, m, d) \<Rightarrow> decimal (nat y) @ ascii ''-'' @ pad2 m @ ascii ''-'' @ pad2 d)"

section \<open>The data model (database/models.py)\<close>

datatype MessageRole = USER | ASSISTANT

definition role_value :: "MessageRole \<Rightarrow> ustring" where
  "role_value r = (case r of USER \<Rightarrow> ascii ''user'' | ASSISTANT \<Rightarrow> ascii ''assistant'')"

datatype MemoryType = SHORT_TERM | LONG_TERM

datatype ImportanceLevel = HIGH | MEDIUM | LOW

record Message =
  role :: MessageRole
  content :: ustring
  timestamp :: datetime
  emotion_detected :: "ustring option"
  context_importance :: ImportanceLevel

text \<open>
  The \<open>_id\<close> of a stored document is the \<open>ObjectId\<close> that the store generates at
  insertion; class \<open>Memory\<close> holds its \<open>str\<close> (validator \<open>convert_id\<close>). A document
  of the collection and an object of class \<open>Memory\<close> have the same fields, so one record
  serves for both; field \<open>id\<close> is \<open>mem_id\<close> and field \<open>content\<close> is \<open>mem_content\<close>
  here.
\<close>

datatype id_value = ObjectId nat | IdStr ustring

record Memory =
  mem_id :: id_value
  user_id :: ustring
  memory_type :: MemoryType
  mem_content :: ustring
  importance_score :: real
  created_at :: datetime
  last_accessed :: datetime
  access_count :: int

definition hex_digit :: "nat \<Rightarrow> nat" where
  "hex_digit d = (if d mod 16 < 10 then 48 + d mod 16 else 87 + d mod 16)"

definition str_of_oid :: "nat \<Rightarrow> ustring" where
  "str_of_oid n = map (\<lambda>i. hex_digit (n div 16 ^ (23 - i))) [0..<24]"

definition convert_objectid_to_str :: "id_value \<Rightarrow> id_value" where
  "convert_objectid_to_str v = (case v of ObjectId n \<Rightarrow> IdStr (str_of_oid n) | IdStr s \<Rightarrow> IdStr s)"

section \<open>The importance scorer (ai\_services/memory\_manager.py)\<close>

definition importance_keywords_high :: "ustring list" where
  "importance_keywords_high =
   [[1582, 1608, 1583, 1705, 1588, 1740], [1605, 1585, 1711], [1583, 1585, 1583],
    [1575, 1601, 1587, 1585, 1583, 1607], [1606, 1575, 1575, 1605, 1740, 1583],
    [1578, 1606, 1607, 1575], [1578, 1585, 1587], [1606, 1711, 1585, 1575, 1606],
    [1575, 1590, 1591, 1585, 1575, 1576], [1593, 1575, 1588, 1602],
    [1575, 1586, 1583, 1608, 1575, 1580], [1591, 1604, 1575, 1602],
    [1582, 1575, 1606, 1608, 1575, 1583, 1607], [1662, 1583, 1585], [1605, 1575, 1583, 1585],
    [1601, 1585, 1586, 1606, 1583], [1705, 1575, 1585], [1588, 1594, 1604],
    [1576, 1740, 1605, 1575, 1585, 1740], [1587, 1604, 1575, 1605, 1578],
    [1583, 1585, 1583, 1587, 1585], [1605, 1588, 1705, 1604], [1576, 1581, 1585, 1575, 1606],
    [1578, 1589, 1605, 1740, 1605, 32, 1605, 1607, 1605]]"

definition importance_keywords_medium :: "ustring list" where
  "importance_keywords_medium =
   [[1583, 1608, 1587, 1578], [1585, 1575, 1576, 1591, 1607], [1575, 1581, 1587, 1575, 1587],
    [1582, 1608, 1588, 1581, 1575, 1604], [1606, 1575, 1585, 1575, 1581, 1578],
    [1593, 1589, 1576, 1575, 1606, 1740], [1570, 1585, 1575, 1605],
    [1578, 1594, 1740, 1740, 1585], [1576, 1585, 1606, 1575, 1605, 1607], [1607, 1583, 1601],
    [1570, 1740, 1606, 1583, 1607], [1711, 1584, 1588, 1578, 1607],
    [1582, 1575, 1591, 1585, 1607], [1578, 1580, 1585, 1576, 1607]]"

definition emotion_weights :: "(ustring \<times> real) list" where
  "emotion_weights =
   [(ascii ''sad'', 2/10), (ascii ''angry'', 15/100), (ascii ''anxious'', 2/10),
    (ascii ''worried'', 15/100), (ascii ''excited'', 1/10), (ascii ''happy'', 5/100),
    (ascii ''frustrated'', 15/100)]"

definition personal_pronouns :: "ustring list" where
  "personal_pronouns =
   [[1605, 1606], [1582, 1608, 1583, 1605], [1582, 1608, 1583],
    [1605, 1575, 1604, 32, 1605, 1606], [1576, 1585, 1575, 1740, 32, 1605, 1606]]"

text \<open>
  The loop \<open>for keyword in ...: if keyword in content: score += w\<close>.
\<close>

definition add_matches :: "real \<Rightarrow> ustring list \<Rightarrow> ustring \<Rightarrow> real \<Rightarrow> real" where
  "add_matches w keywords text score =
     fold (\<lambda>keyword s. if str_contains keyword text then s + w else s) keywords score"

text \<open>
  \<open>if message.emotion_detected: score += emotion_weights.get(message.emotion_detected, 0.05)\<close>.
  The guard is Python truthiness: \<open>None\<close> and the empty string are both false.
\<close>

definition emotion_step :: "ustring option \<Rightarrow> real \<Rightarrow> real" where
  "emotion_step emotion score =
     (case emotion of
        None \<Rightarrow> score
      | Some e \<Rightarrow>
          if e = [] then score
          else score + (case map_of emotion_weights e of Some w \<Rightarrow> w | None \<Rightarrow> 5/100))"

text \<open>\<open>if len(content) > 100: score += 0.1 elif len(content) > 200: score += 0.15\<close>.\<close>

definition length_step :: "ustring \<Rightarrow> real \<Rightarrow> real" where
  "length_step text score =
     (if length text > 100 then score + 1/10
      else if length text > 200 then score + 15/100
      else score)"

definition question_step :: "ustring \<Rightarrow> real \<Rightarrow> real" where
  "question_step text score =
     (if str_contains (ascii ''?'') text \<or> str_contains [1670, 1585, 1575] text
         \<or> str_contains [1670, 1711, 1608, 1606, 1607] text \<or> str_contains [1705, 1740] text
      then score + 1/10 else score)"

text \<open>The score before the final clamp, step by step as \<open>_calculate_importance_score\<close>.\<close>

definition raw_importance_score :: "unicode_db \<Rightarrow> Message \<Rightarrow> real" where
  "raw_importance_score U message =
     (let score = 5/10;
          text = str_lower U (content message);
          score = add_matches (15/100) importance_keywords_high text score;
          score = add_matches (8/100) importance_keywords_medium text score;
          score = emotion_step (emotion_detected message) score;
          score = length_step text score;
          score = question_step text score;
          score = add_matches (5/100) personal_pronouns text score
      in score)"

definition calculate_importance_score :: "unicode_db \<Rightarrow> Message \<Rightarrow> real" where
  "calculate_importance_score U message = max 0 (min 1 (raw_importance_score U message))"

definition score_to_importance_level :: "real \<Rightarrow> ImportanceLevel" where
  "score_to_importance_level score =
     (if score \<ge> 7/10 then HIGH else if score \<ge> 4/10 then MEDIUM else LOW)"

section \<open>Binary64 arithmetic\<close>

text \<open>
  A Python \<open>float\<close> is an IEEE 754 binary64 number: a multiple of a power of two with a
  significand of 53 bits (of fewer bits below 2 to the power -1022). A literal, a
  division of two integers, a product and a sum each give the exact value rounded to the
  nearest such number, a tie going to the even significand. \<open>ilog2 x\<close> is the exponent of
  the binade of a positive \<open>x\<close> (computed from the bit length of an integer), and
  \<open>b64 x\<close> the rounded \<open>x\<close>. The numbers of the
  ranker are quotients of counts, importances from 0 to 1 and their weighted sums, far below
  the largest binary64 number, so no operation overflows.
\<close>

definition round_half_even :: "real \<Rightarrow> int" where
  "round_half_even x =
     (let f = \<lfloor>x\<rfloor>; r = x - of_int f
      in if r < 1/2 then f else if 1/2 < r then f + 1 else if even f then f else f + 1)"

definition pow2 :: "int \<Rightarrow> real" where
  "pow2 k = (if 0 \<le> k then 2 ^ nat k else 1 / 2 ^ nat (- k))"

definition ilog2 :: "real \<Rightarrow> int" where
  "ilog2 x = (if 1 \<le> x then bitlen \<lfloor>x\<rfloor> - 1 else - bitlen (\<lceil>1 / x\<rceil> - 1))"

definition b64 :: "real \<Rightarrow> real" where
  "b64 x =
     (if x = 0 then 0
      else (let e = max (ilog2 \<bar>x\<bar>) (- 1022);
                ulp = pow2 (e - 52)
            in of_int (round_half_even (x / ulp)) * ulp))"

section \<open>The relevance ranker\<close>

definition stop_words :: "ustring list" where
  "stop_words =
   [[1608], [1583, 1585], [1576, 1607], [1575, 1586], [1705, 1607], [1575, 1740, 1606],
    [1576, 1575], [1576, 1585, 1575, 1740], [1578, 1575], [1576, 1585], [1740, 1575],
    [1575, 1605, 1575], [1670, 1608, 1606], [1575, 1711, 1585], [1608, 1602, 1578, 1740],
    [1575, 1604, 1576, 1578, 1607], [1576, 1593, 1583], [1602, 1576, 1604],
    [1581, 1575, 1604, 1575], [1575, 1604, 1575, 1606], [1575, 1605, 1585, 1608, 1586],
    [1583, 1740, 1585, 1608, 1586], [1575, 1587, 1578], [1607, 1587, 1578],
    [1576, 1608, 1583], [1588, 1583], [1605, 1740], [1606, 1605, 1740],
    [1582, 1740, 1604, 1740], [1586, 1740, 1575, 1583], [1705, 1605], [1601, 1602, 1591]]"

text \<open>
  The character class of the pattern (code points 0600 to 06FF, 0700 to 077F, and
  \<open>\w\<close>), and \<open>re.findall\<close> of one or
  more such characters: the maximal runs, from left to right.
\<close>

definition token_char :: "unicode_db \<Rightarrow> nat \<Rightarrow> bool" where
  "token_char U c = ((1536 \<le> c \<and> c \<le> 1791) \<or> (1792 \<le> c \<and> c \<le> 1919) \<or> re_w U c)"

fun findall_runs :: "(nat \<Rightarrow> bool) \<Rightarrow> ustring \<Rightarrow> ustring \<Rightarrow> ustring list" where
  "findall_runs p run [] = (if run = [] then [] else [run])"
| "findall_runs p run (c # cs) =
     (if p c then findall_runs p (run @ [c]) cs
      else (if run = [] then [] else [run]) @ findall_runs p [] cs)"

definition extract_keywords :: "unicode_db \<Rightarrow> ustring \<Rightarrow> ustring list" where
  "extract_keywords U text =
     filter (\<lambda>word. length word > 2 \<and> word \<notin> set stop_words)
       (findall_runs (token_char U) [] text)"

definition calculate_time_relevance :: "datetime \<Rightarrow> datetime \<Rightarrow> real" where
  "calculate_time_relevance now created =
     (let days_ago = td_days (now - created)
      in if days_ago \<le> 1 then 1
         else if days_ago \<le> 7 then 8/10
         else if days_ago \<le> 30 then 6/10
         else if days_ago \<le> 90 then 4/10
         else 2/10)"



text \<open>
  The same loop as the runtime computes it: the literals \<open>0.5\<close>, \<open>0.3\<close>, \<open>0.1\<close>
  and those of \<open>_calculate_time_relevance\<close> are binary64 numbers, the two divisions are
  of integers, and the expression \<open>(similarity * 0.5) + (memory.importance_score * 0.3) +
  (time_factor * 0.1) + (access_factor * 0.1)\<close> is four products summed from the left, each
  operation rounded. The importance of a stored memory is a binary64 number already.
\<close>

definition score_memory_b64 ::
  "unicode_db \<Rightarrow> datetime \<Rightarrow> ustring set \<Rightarrow> Memory \<Rightarrow> real option" where
  "score_memory_b64 U now current_words memory =
     (let memory_words = set (extract_keywords U (str_lower U (mem_content memory)));
          overlap = card (current_words \<inter> memory_words);
          total_words = card (current_words \<union> memory_words)
      in if total_words > 0 then
           (let similarity = b64 (real overlap / real total_words);
                time_factor = b64 (calculate_time_relevance now (created_at memory));
                access_factor = min 1 (b64 (real_of_int (access_count memory) / 10));
                final_score =
                  b64 (b64 (b64 (b64 (similarity * b64 (5/10))
                                 + b64 (importance_score memory * b64 (3/10)))
                            + b64 (time_factor * b64 (1/10)))
                       + b64 (access_factor * b64 (1/10)))
            in Some final_score)
         else None)"

fun score_loop_b64 ::
  "unicode_db \<Rightarrow> datetime \<Rightarrow> ustring set \<Rightarrow> Memory list \<Rightarrow> (Memory \<times> real) list
     \<Rightarrow> (Memory \<times> real) list" where
  "score_loop_b64 U now current_words [] scored_memories = scored_memories"
| "score_loop_b64 U now current_words (memory # rest) scored_memories =
     (case score_memory_b64 U now current_words memory of
        Some final_score \<Rightarrow>
          score_loop_b64 U now current_words rest (scored_memories @ [(memory, final_score)])
      | None \<Rightarrow> score_loop_b64 U now current_words rest scored_memories)"

text \<open>
  \<open>list.sort(key=..., reverse=True)\<close> is stable: elements with equal keys keep their
  order, also under \<open>reverse=True\<close>. That is the stable insertion sort on the negated key.
  The slice \<open>xs[:n]\<close> drops from the end when \<open>n\<close> is negative. The sort and the
  comparison \<open>score > 0.2\<close> are on the binary64 scores, against the binary64 number of
  the literal \<open>0.2\<close>.
\<close>

definition sort_by_score_desc :: "(Memory \<times> real) list \<Rightarrow> (Memory \<times> real) list" where
  "sort_by_score_desc xs = sort_key (\<lambda>x. - snd x) xs"

definition py_take :: "int \<Rightarrow> 'a list \<Rightarrow> 'a list" where
  "py_take n xs = (if n \<ge> 0 then take (nat n) xs else take (nat (int (length xs) + n)) xs)"

definition rank_candidates ::
  "unicode_db \<Rightarrow> datetime \<Rightarrow> ustring \<Rightarrow> int \<Rightarrow> Memory list \<Rightarrow> Memory list" where
  "rank_candidates U now current_message limit all_memories =
     (if all_memories = [] then []
      else
        (let current_words = set (extract_keywords U (str_lower U current_message));
             scored_memories = score_loop_b64 U now current_words all_memories [];
             scored_memories = sort_by_score_desc scored_memories
         in map fst (filter (\<lambda>(memory, score). score > b64 (2/10))
                       (py_take limit scored_memories))))"

section \<open>The persistence store (database/mongodb.py)\<close>

text \<open>
  The memory collection is the list of its documents in insertion order. A call of the store
  may raise; \<open>faults\<close> lists, for the calls to come, whether each raises (no entry: the call
  succeeds). A call that raises leaves the collection as it is.
\<close>

datatype error = StoreUnavailable | ValidationError

record store =
  memories :: "Memory list"
  next_oid :: nat
  faults :: "bool list"

definition next_call :: "store \<Rightarrow> bool \<times> store" where
  "next_call db = (case faults db of [] \<Rightarrow> (False, db) | f # fs \<Rightarrow> (f, db\<lparr>faults := fs\<rparr>))"

definition store_memory ::
  "datetime \<Rightarrow> ustring \<Rightarrow> ustring \<Rightarrow> MemoryType \<Rightarrow> real \<Rightarrow> store \<Rightarrow> (error + ustring) \<times> store" where
  "store_memory now uid text mtype score db =
     (case next_call db of
        (True, db') \<Rightarrow> (Inl StoreUnavailable, db')
      | (False, db') \<Rightarrow>
          (let memory_data =
                 \<lparr>mem_id = ObjectId (next_oid db'), user_id = uid, memory_type = mtype,
                  mem_content = text, importance_score = score, created_at = now,
                  last_accessed = now, access_count = 0\<rparr>
           in (Inr (str_of_oid (next_oid db')),
               db'\<lparr>memories := memories db' @ [memory_data], next_oid := Suc (next_oid db')\<rparr>)))"

text \<open>
  \<open>find(query).sort([("importance_score", -1), ("last_accessed", -1)]).limit(limit)\<close>; a
  limit of 0 is no limit, and a negative limit is its absolute value. Documents with equal
  sort keys come in insertion order. \<open>Memory(**mem)\<close> converts the \<open>_id\<close> and validates
  \<open>importance_score\<close> against \<open>ge=0.0, le=1.0\<close>.
\<close>

definition mongo_limit :: "int \<Rightarrow> 'a list \<Rightarrow> 'a list" where
  "mongo_limit n xs = (if n = 0 then xs else take (nat \<bar>n\<bar>) xs)"

definition load_memory :: "Memory \<Rightarrow> error + Memory" where
  "load_memory mem =
     (if 0 \<le> importance_score mem \<and> importance_score mem \<le> 1
      then Inr (mem\<lparr>mem_id := convert_objectid_to_str (mem_id mem)\<rparr>)
      else Inl ValidationError)"

fun load_all :: "Memory list \<Rightarrow> error + Memory list" where
  "load_all [] = Inr []"
| "load_all (mem # rest) =
     (case load_memory mem of
        Inl e \<Rightarrow> Inl e
      | Inr m \<Rightarrow> (case load_all rest of Inl e \<Rightarrow> Inl e | Inr ms \<Rightarrow> Inr (m # ms)))"

definition get_relevant_memories ::
  "ustring \<Rightarrow> MemoryType option \<Rightarrow> int \<Rightarrow> store \<Rightarrow> (error + Memory list) \<times> store" where
  "get_relevant_memories uid mtype limit db =
     (case next_call db of
        (True, db') \<Rightarrow> (Inl StoreUnavailable, db')
      | (False, db') \<Rightarrow>
          (let found = filter (\<lambda>d. user_id d = uid
                                    \<and> (case mtype of None \<Rightarrow> True | Some t \<Rightarrow> memory_type d = t))
                         (memories db');
               sorted_docs = sort_key (\<lambda>d. (- importance_score d, - last_accessed d)) found
           in (load_all (mongo_limit limit sorted_docs), db')))"

text \<open>
  \<open>update_one({"_id": memory_id}, {"$set": {"last_accessed": now}, "$inc": {"access_count": 1}})\<close>
  changes the first document whose \<open>_id\<close> equals \<open>memory_id\<close>, and the call returns
  \<open>modified_count > 0\<close>. An \<open>ObjectId\<close> and a string are never equal.
\<close>

fun update_one :: "('a \<Rightarrow> bool) \<Rightarrow> ('a \<Rightarrow> 'a) \<Rightarrow> 'a list \<Rightarrow> 'a list" where
  "update_one q u [] = []"
| "update_one q u (d # ds) = (if q d then u d # ds else d # update_one q u ds)"

definition update_memory_access :: "datetime \<Rightarrow> id_value \<Rightarrow> store \<Rightarrow> (error + bool) \<times> store" where
  "update_memory_access now memory_id db =
     (case next_call db of
        (True, db') \<Rightarrow> (Inl StoreUnavailable, db')
      | (False, db') \<Rightarrow>
          (Inr (\<exists>d \<in> set (memories db'). mem_id d = memory_id),
           db'\<lparr>memories :=
                 update_one (\<lambda>d. mem_id d = memory_id)
                   (\<lambda>d. d\<lparr>last_accessed := now, access_count := access_count d + 1\<rparr>)
                   (memories db')\<rparr>))"

section \<open>The memory manager on the store\<close>

text \<open>
  \<open>_get_contextually_relevant_memories\<close>: the candidate pool is the first 50 long-term
  memories of the owner; an exception of the store is caught and the result is \<open>[]\<close>.
\<close>

definition get_contextually_relevant_memories ::
  "unicode_db \<Rightarrow> datetime \<Rightarrow> ustring \<Rightarrow> ustring \<Rightarrow> int \<Rightarrow> store \<Rightarrow> Memory list \<times> store" where
  "get_contextually_relevant_memories U now uid current_message limit db =
     (case get_relevant_memories uid (Some LONG_TERM) 50 db of
        (Inl e, db') \<Rightarrow> ([], db')
      | (Inr all_memories, db') \<Rightarrow> (rank_candidates U now current_message limit all_memories, db'))"

text \<open>
  The two loops of \<open>get_relevant_context\<close>: each memory adds its line to
  \<open>context_items\<close> and is then marked as accessed; an exception of the store ends the loop.
\<close>

fun access_loop ::
  "datetime \<Rightarrow> ustring \<Rightarrow> Memory list \<Rightarrow> ustring list \<Rightarrow> store \<Rightarrow> (error + ustring list) \<times> store" where
  "access_loop now label [] context_items db = (Inr context_items, db)"
| "access_loop now label (memory # rest) context_items db =
     (case update_memory_access now (mem_id memory) db of
        (Inl e, db') \<Rightarrow> (Inl e, db')
      | (Inr _, db') \<Rightarrow>
          access_loop now label rest (context_items @ [label @ mem_content memory]) db')"

definition get_relevant_context ::
  "unicode_db \<Rightarrow> datetime \<Rightarrow> ustring \<Rightarrow> ustring \<Rightarrow> int \<Rightarrow> store \<Rightarrow> ustring list \<times> store" where
  "get_relevant_context U now uid current_message limit db =
     (case get_relevant_memories uid (Some SHORT_TERM) (limit div 2) db of
        (Inl e, db1) \<Rightarrow> ([], db1)
      | (Inr short_term_memories, db1) \<Rightarrow>
          (case access_loop now (ascii ''Recent: '') short_term_memories [] db1 of
             (Inl e, db2) \<Rightarrow> ([], db2)
           | (Inr context_items, db2) \<Rightarrow>
               (case get_contextually_relevant_memories U now uid current_message (limit div 2) db2 of
                  (long_term_memories, db3) \<Rightarrow>
                    (case access_loop now (ascii ''Background: '') long_term_memories
                            context_items db3 of
                       (Inl e, db4) \<Rightarrow> ([], db4)
                     | (Inr context_items, db4) \<Rightarrow> (context_items, db4)))))"

definition store_short_term_memory ::
  "datetime \<Rightarrow> ustring \<Rightarrow> Message \<Rightarrow> real \<Rightarrow> store \<Rightarrow> (error + ustring) \<times> store" where
  "store_short_term_memory now uid message score db =
     (let text = role_value (role message) @ ascii '': '' @ content message;
          text = (case emotion_detected message of
                    None \<Rightarrow> text
                  | Some e \<Rightarrow> if e = [] then text
                              else text @ ascii '' [emotion: '' @ e @ ascii '']'')
      in store_memory now uid text SHORT_TERM score db)"

fun str_join :: "ustring \<Rightarrow> ustring list \<Rightarrow> ustring" where
  "str_join sep [] = []"
| "str_join sep [x] = x"
| "str_join sep (x # y # ys) = x @ sep @ str_join sep (y # ys)"

definition create_long_term_summary :: "Message \<Rightarrow> ustring" where
  "create_long_term_summary message =
     (let time_context = strftime_ymd (timestamp message);
          summary_parts = [ascii ''['' @ time_context @ ascii '']''];
          summary_parts = (case emotion_detected message of
                             None \<Rightarrow> summary_parts
                           | Some e \<Rightarrow> if e = [] then summary_parts
                                       else summary_parts @ [ascii ''User felt '' @ e]);
          text = content message;
          text = (if length text > 200 then take 200 text @ ascii ''...'' else text);
          summary_parts = summary_parts @ [ascii ''Said: '' @ text]
      in str_join (ascii '' - '') summary_parts)"

definition store_long_term_memory ::
  "datetime \<Rightarrow> ustring \<Rightarrow> Message \<Rightarrow> real \<Rightarrow> store \<Rightarrow> (error + ustring) \<times> store" where
  "store_long_term_memory now uid message score db =
     store_memory now uid (create_long_term_summary message) LONG_TERM score db"

text \<open>
  The short-term cache of the manager: a dictionary from the owner to the list of its entries
  (each a dictionary with the keys \<open>content\<close>, \<open>role\<close>, \<open>timestamp\<close>,
  \<open>importance\<close>, \<open>emotion\<close>).
\<close>

record cache_entry =
  entry_content :: ustring
  entry_role :: ustring
  entry_timestamp :: datetime
  entry_importance :: real
  entry_emotion :: "ustring option"

type_synonym cache = "ustring \<rightharpoonup> cache_entry list"

definition update_short_term_cache :: "ustring \<Rightarrow> Message \<Rightarrow> real \<Rightarrow> cache \<Rightarrow> cache" where
  "update_short_term_cache uid message score c =
     (let entries = (case c uid of None \<Rightarrow> [] | Some es \<Rightarrow> es);
          cache_entry = \<lparr>entry_content = content message, entry_role = role_value (role message),
                         entry_timestamp = timestamp message, entry_importance = score,
                         entry_emotion = emotion_detected message\<rparr>;
          entries = entries @ [cache_entry];
          entries = (if length entries > 20 then drop (length entries - 20) entries else entries)
      in c(uid \<mapsto> entries))"

text \<open>
  \<open>_cleanup_cache\<close> keeps the entries with
  \<open>(current_time - entry['timestamp']).seconds < 3600\<close> and deletes an owner left with none.
\<close>

definition cleanup_cache :: "datetime \<Rightarrow> cache \<Rightarrow> cache" where
  "cleanup_cache current_time c =
     (\<lambda>uid. case c uid of
              None \<Rightarrow> None
            | Some entries \<Rightarrow>
                (let kept = filter (\<lambda>entry. td_seconds (current_time - entry_timestamp entry) < 3600)
                              entries
                 in if kept = [] then None else Some kept))"

text \<open>
  \<open>store_conversation_memory\<close> returns \<open>True\<close>, or \<open>False\<close> when a call of the store
  raised; the state is the store and the cache of the manager.
\<close>

definition store_conversation_memory ::
  "unicode_db \<Rightarrow> datetime \<Rightarrow> ustring \<Rightarrow> Message \<Rightarrow> store \<times> cache \<Rightarrow> bool \<times> store \<times> cache" where
  "store_conversation_memory U now uid message st =
     (case st of (db, c) \<Rightarrow>
        (let importance = calculate_importance_score U message;
             importance_level = score_to_importance_level importance
         in case store_short_term_memory now uid message importance db of
              (Inl e, db1) \<Rightarrow> (False, db1, c)
            | (Inr _, db1) \<Rightarrow>
                if importance \<ge> 7/10 then
                  (case store_long_term_memory now uid message importance db1 of
                     (Inl e, db2) \<Rightarrow> (False, db2, c)
                   | (Inr _, db2) \<Rightarrow> (True, db2, update_short_term_cache uid message importance c))
                else (True, db1, update_short_term_cache uid message importance c)))"

section \<open>Concrete inputs\<close>

definition sad_message :: Message where
  "sad_message =
     \<lparr>role = USER,
      content = [1582, 1740, 1604, 1740, 32, 1606, 1575, 1585, 1575, 1581, 1578, 1605],
      timestamp = 0, emotion_detected = None, context_importance = MEDIUM\<rparr>"

definition long_message :: Message where
  "long_message =
     \<lparr>role = USER, content = replicate 201 97, timestamp = 0, emotion_detected = None,
      context_importance = MEDIUM\<rparr>"

definition plain_message :: Message where
  "plain_message =
     \<lparr>role = USER, content = ascii ''hello'', timestamp = 0, emotion_detected = None,
      context_importance = MEDIUM\<rparr>"

definition empty_store :: store where
  "empty_store = \<lparr>memories = [], next_oid = 0, faults = []\<rparr>"

definition sad_emotion_message :: Message where
  "sad_emotion_message = plain_message\<lparr>emotion_detected := Some (ascii ''sad'')\<rparr>"

definition odd_emotion_message :: Message where
  "odd_emotion_message = plain_message\<lparr>emotion_detected := Some (ascii ''stable'')\<rparr>"

section \<open>The relevance score as the specification states it\<close>

text \<open>
  The four signals and their blend, written from the specification: the Jaccard ratio of two
  keyword sets, the age in whole days since creation, the recency step function, the access
  factor, and the final score. \<open>keyword_set\<close> is the set of keywords of a text in lower case.
\<close>

definition keyword_set :: "unicode_db \<Rightarrow> ustring \<Rightarrow> ustring set" where
  "keyword_set U text = set (extract_keywords U (str_lower U text))"

definition jaccard :: "ustring set \<Rightarrow> ustring set \<Rightarrow> real" where
  "jaccard A B = real (card (A \<inter> B)) / real (card (A \<union> B))"

definition age_in_days :: "datetime \<Rightarrow> datetime \<Rightarrow> int" where
  "age_in_days now created = (now - created) div 86400000000"

definition recency :: "int \<Rightarrow> real" where
  "recency days =
     (if days \<le> 1 then 1 else if days \<le> 7 then 8/10 else if days \<le> 30 then 6/10
      else if days \<le> 90 then 4/10 else 2/10)"

definition access_factor :: "int \<Rightarrow> real" where
  "access_factor n = min 1 (real_of_int n / 10)"

definition final_score :: "unicode_db \<Rightarrow> datetime \<Rightarrow> ustring set \<Rightarrow> Memory \<Rightarrow> real" where
  "final_score U now query_tokens m =
     5/10 * jaccard query_tokens (keyword_set U (mem_content m))
     + 3/10 * importance_score m
     + 1/10 * recency (age_in_days now (created_at m))
     + 1/10 * access_factor (access_count m)"

section \<open>Concrete inputs for the ranker\<close>


text \<open>
  A store with four long-term memories of one owner, for the query \<open>aaa bbb\<close> at day 100.
  The second one (importance the binary64 number of \<open>0.05\<close>, created at day 0, four
  accesses, one of its three keywords shared with the query) has the score
  \<open>0.20000000000000004\<close>, the binary64 number next above that of \<open>0.2\<close>.
\<close>

definition hundred_days :: datetime where
  "hundred_days = 100 * us_per_day"

definition long_term_memory :: "id_value \<Rightarrow> ustring \<Rightarrow> real \<Rightarrow> datetime \<Rightarrow> int \<Rightarrow> Memory" where
  "long_term_memory i text importance created n =
     \<lparr>mem_id = i, user_id = ascii ''u'', memory_type = LONG_TERM, mem_content = text,
      importance_score = importance, created_at = created, last_accessed = created,
      access_count = n\<rparr>"

definition recent_memory :: "id_value \<Rightarrow> Memory" where
  "recent_memory i = long_term_memory i (ascii ''aaa bbb'') (3/4) hundred_days 0"

definition cutoff_memory :: "id_value \<Rightarrow> Memory" where
  "cutoff_memory i = long_term_memory i (ascii ''aaa ccc ddd'') (3602879701896397 / 2 ^ 56) 0 4"

definition faint_memory :: "id_value \<Rightarrow> Memory" where
  "faint_memory i = long_term_memory i (ascii ''zzz yyy'') (1/4) 0 0"

definition fainter_memory :: "id_value \<Rightarrow> Memory" where
  "fainter_memory i = long_term_memory i (ascii ''xxx'') (1/8) 0 0"

definition ranker_store :: store where
  "ranker_store =
     \<lparr>memories = [recent_memory (ObjectId 0), cutoff_memory (ObjectId 1),
                  faint_memory (ObjectId 2), fainter_memory (ObjectId 3)],
      next_oid = 4, faults = []\<rparr>"

text \<open>
  The blend of the four signals in binary64 arithmetic, and the final score of a candidate that
  shares no keyword with the query: the blend with similarity 0 of its importance, its recency
  and its access factor.
\<close>

definition blend_b64 :: "real \<Rightarrow> real \<Rightarrow> real \<Rightarrow> real \<Rightarrow> real" where
  "blend_b64 similarity importance recency_factor access =
     b64 (b64 (b64 (b64 (similarity * b64 (5/10)) + b64 (importance * b64 (3/10)))
               + b64 (recency_factor * b64 (1/10)))
          + b64 (access * b64 (1/10)))"

definition zero_overlap_score :: "datetime \<Rightarrow> Memory \<Rightarrow> real" where
  "zero_overlap_score now m =
     blend_b64 0 (importance_score m) (b64 (recency (age_in_days now (created_at m))))
       (min 1 (b64 (real_of_int (access_count m) / 10)))"

section \<open>Concrete inputs for the cache and the store\<close>

text \<open>A cache with one entry of time 0, and the time one day and ten minutes later.\<close>

definition stale_entry :: cache_entry where
  "stale_entry =
     \<lparr>entry_content = ascii ''hello'', entry_role = ascii ''user'', entry_timestamp = 0,
      entry_importance = 5/10, entry_emotion = None\<rparr>"

definition stale_cache :: cache where
  "stale_cache = [ascii ''u'' \<mapsto> [stale_entry]]"

definition day_and_ten_minutes :: datetime where
  "day_and_ten_minutes = us_per_day + 600000000"

text \<open>
  The documents that \<open>store_memory\<close> inserts have an \<open>ObjectId\<close> as \<open>_id\<close>
  (\<open>object_ids\<close>), and the objects of class \<open>Memory\<close> that a query returns have its
  string (\<open>string_ids\<close>).
\<close>

fun is_object_id :: "id_value \<Rightarrow> bool" where
  "is_object_id (ObjectId n) = True"
| "is_object_id (IdStr s) = False"

definition object_ids :: "store \<Rightarrow> bool" where
  "object_ids db = list_all (\<lambda>d. is_object_id (mem_id d)) (memories db)"

definition string_ids :: "Memory list \<Rightarrow> bool" where
  "string_ids ms = list_all (\<lambda>m. \<not> is_object_id (mem_id m)) ms"

text \<open>
  The store after the message \<open>hello\<close> of owner \<open>u\<close> was stored at time 0 into the
  empty store: one short-term record.
\<close>

definition hello_memory :: "id_value \<Rightarrow> Memory" where
  "hello_memory i =
     \<lparr>mem_id = i, user_id = ascii ''u'', memory_type = SHORT_TERM,
      mem_content = ascii ''user: hello'', importance_score = 5/10, created_at = 0,
      last_accessed = 0, access_count = 0\<rparr>"

definition hello_store :: store where
  "hello_store = \<lparr>memories = [hello_memory (ObjectId 0)], next_oid = 1, faults = []\<rparr>"

text \<open>
  \<open>fails_at n fs\<close>: in the schedule \<open>fs\<close> the first \<open>n\<close> calls of the store succeed
  and the next call raises. \<open>recent_items\<close> are the lines of the short-term memories in
  the context.
\<close>

fun fails_at :: "nat \<Rightarrow> bool list \<Rightarrow> bool" where
  "fails_at n [] = False"
| "fails_at 0 (f # fs) = f"
| "fails_at (Suc n) (f # fs) = (\<not> f \<and> fails_at n fs)"

definition recent_items :: "Memory list \<Rightarrow> ustring list" where
  "recent_items ms = map (\<lambda>m. ascii ''Recent: '' @ mem_content m) ms"

section \<open>The importance scorer: properties\<close>

lemma add_matches_count:
  "add_matches w ks t s = s + w * real (length (filter (\<lambda>k. str_contains k t) ks))"
  unfolding add_matches_def
  by (induction ks arbitrary: s) (simp_all add: algebra_simps)

lemma starts_with_subset: "starts_with k t \<Longrightarrow> set k \<subseteq> set t"
  by (induction k t rule: starts_with.induct) auto

lemma str_contains_subset: "str_contains k t \<Longrightarrow> set k \<subseteq> set t"
proof (induction k t rule: str_contains.induct)
  case (1 k)
  then show ?case by simp
next
  case (2 k c cs)
  then show ?case using starts_with_subset [of k "c # cs"] by auto
qed

lemma add_matches_none:
  "\<forall>k \<in> set ks. \<not> set k \<subseteq> set t \<Longrightarrow> add_matches w ks t s = s"
  unfolding add_matches_def
  by (induction ks arbitrary: s) (auto dest: str_contains_subset)

lemma raw_split_emotion:
  "raw_importance_score U m =
     raw_importance_score U (m\<lparr>emotion_detected := None\<rparr>) + emotion_step (emotion_detected m) 0"
  by (simp add: raw_importance_score_def Let_def add_matches_count length_step_def
      question_step_def emotion_step_def split: option.splits)

lemma sad_lower: "str_lower ascii_db (content sad_message) = content sad_message"
  by (simp add: ascii_db_def sad_message_def)
lemma sad_high: "add_matches (15/100) importance_keywords_high (content sad_message) (5/10) = 5/10"
  by (simp add: sad_message_def add_matches_def importance_keywords_high_def)
lemma sad_medium: "add_matches (8/100) importance_keywords_medium (content sad_message) (5/10) = 58/100"
  by (simp add: sad_message_def add_matches_def importance_keywords_medium_def)
lemma sad_question: "question_step (content sad_message) (58/100) = 58/100"
  by (simp add: sad_message_def question_step_def ascii_def)
lemma sad_pronouns: "add_matches (5/100) personal_pronouns (content sad_message) (58/100) = 58/100"
  by (simp add: sad_message_def add_matches_def personal_pronouns_def)
lemma sad_length: "length_step (content sad_message) (58/100) = 58/100"
  by (simp add: sad_message_def length_step_def)
lemma sad_emotion: "emotion_step (emotion_detected sad_message) s = s"
  by (simp add: sad_message_def emotion_step_def)

lemma sad_raw: "raw_importance_score ascii_db sad_message = 58/100"
  unfolding raw_importance_score_def Let_def sad_lower sad_high sad_medium sad_emotion sad_length sad_question sad_pronouns
  by (rule refl)

lemma sad_score: "calculate_importance_score ascii_db sad_message = 58/100"
  unfolding calculate_importance_score_def sad_raw by simp


lemma store_memory_ok:
  "faults db = [] \<Longrightarrow>
   store_memory now uid t ty s db =
     (Inr (str_of_oid (next_oid db)),
      db\<lparr>memories := memories db @
             [\<lparr>mem_id = ObjectId (next_oid db), user_id = uid, memory_type = ty, mem_content = t,
               importance_score = s, created_at = now, last_accessed = now, access_count = 0\<rparr>],
         next_oid := Suc (next_oid db)\<rparr>)"
  by (simp add: store_memory_def next_call_def)

lemma store_conversation_tiers:
  assumes "faults db = []"
  shows "fst (store_conversation_memory U now uid message (db, c))
         \<and> map memory_type (memories (fst (snd (store_conversation_memory U now uid message (db, c)))))
           = map memory_type (memories db) @
             (if calculate_importance_score U message \<ge> 7/10
              then [SHORT_TERM, LONG_TERM] else [SHORT_TERM])"
  using assms
  by (simp add: store_conversation_memory_def store_short_term_memory_def
      store_long_term_memory_def store_memory_ok Let_def)

text \<open>
  C7 (as amended). The message of the scenario, with no detected emotion, matches no term of the
  high-importance lexicon and one term of the medium-importance lexicon: its importance score is
  0.58, below 0.7. When the store accepts the calls, storing it returns \<open>True\<close> and adds
  one record, of tier SHORT_TERM. For every message the added records are a SHORT_TERM record,
  followed by a LONG_TERM record if and only if the score is at least 0.7.
\<close>

theorem sad_message_short_term_only:
  "calculate_importance_score ascii_db sad_message = 58/100
   \<and> (faults db = [] \<longrightarrow>
        fst (store_conversation_memory ascii_db now uid sad_message (db, c))
        \<and> map memory_type
            (memories (fst (snd (store_conversation_memory ascii_db now uid sad_message (db, c)))))
          = map memory_type (memories db) @ [SHORT_TERM])
   \<and> (faults db = [] \<longrightarrow>
        fst (store_conversation_memory U now uid message (db, c))
        \<and> map memory_type
            (memories (fst (snd (store_conversation_memory U now uid message (db, c)))))
          = map memory_type (memories db) @
            (if calculate_importance_score U message \<ge> 7/10
             then [SHORT_TERM, LONG_TERM] else [SHORT_TERM]))"
  using store_conversation_tiers [where U = ascii_db and message = sad_message and db = db
      and now = now and uid = uid and c = c]
    store_conversation_tiers [where U = U and message = message and db = db
      and now = now and uid = uid and c = c]
  by (simp add: sad_score)

text \<open>The instance of the theorem at the empty store.\<close>

theorem sad_message_short_term_only_witness:
  "faults empty_store = []
   \<and> fst (store_conversation_memory ascii_db 0 (ascii ''u'') sad_message (empty_store, Map.empty))
   \<and> map memory_type (memories (fst (snd
        (store_conversation_memory ascii_db 0 (ascii ''u'') sad_message (empty_store, Map.empty)))))
      = [SHORT_TERM]"
proof -
  have f: "faults empty_store = []" by (simp add: empty_store_def)
  have m: "memories empty_store = []" by (simp add: empty_store_def)
  show ?thesis
    using f m sad_message_short_term_only
      [where db = empty_store and now = 0 and uid = "ascii ''u''" and c = Map.empty
         and U = ascii_db and message = sad_message]
    by simp
qed

text \<open>
  C7 as stated fails: the score of the message is below 0.65, and storing it into the empty
  store does not leave a SHORT_TERM and a LONG_TERM record.
\<close>

theorem sad_message_counterexample:
  "\<not> (65/100 \<le> calculate_importance_score ascii_db sad_message)
   \<and> map memory_type (memories (fst (snd
        (store_conversation_memory ascii_db 0 (ascii ''u'') sad_message (empty_store, Map.empty)))))
      \<noteq> [SHORT_TERM, LONG_TERM]"
proof -
  have f: "faults empty_store = []" by (simp add: empty_store_def)
  have m: "memories empty_store = []" by (simp add: empty_store_def)
  show ?thesis
    using m store_conversation_tiers
      [OF f, where U = ascii_db and now = 0 and uid = "ascii ''u''" and message = sad_message
         and c = Map.empty]
    by (simp add: sad_score)
qed

lemma long_lower: "str_lower ascii_db (content long_message) = replicate 201 97"
  by (simp add: ascii_db_def long_message_def)

lemma long_set: "set (replicate 201 (97::nat)) = {97}"
  by simp

lemma long_high: "add_matches w importance_keywords_high (replicate 201 97) s = s"
  by (rule add_matches_none) (simp add: importance_keywords_high_def)

lemma long_medium: "add_matches w importance_keywords_medium (replicate 201 97) s = s"
  by (rule add_matches_none) (simp add: importance_keywords_medium_def)

lemma long_pronouns: "add_matches w personal_pronouns (replicate 201 97) s = s"
  by (rule add_matches_none) (simp add: personal_pronouns_def)

lemma long_question: "question_step (replicate 201 97) s = s"
proof -
  have "\<not> str_contains k (replicate 201 97)" if "\<not> set k \<subseteq> {97}" for k
    using that str_contains_subset [of k "replicate 201 97"] by auto
  then show ?thesis
    by (simp add: question_step_def ascii_def)
qed

lemma long_length: "length_step (replicate 201 97) s = s + 1/10"
  by (simp add: length_step_def)

lemma long_raw: "raw_importance_score ascii_db long_message = 6/10"
  unfolding raw_importance_score_def Let_def long_lower long_high long_medium long_pronouns
    long_question long_length
  by (simp add: long_message_def emotion_step_def)

text \<open>
  C5. The code at a text of 201 characters: the branch for more than 200 characters comes after
  the branch for more than 100 characters in one \<open>if\<close>/\<open>elif\<close> chain, so the
  text receives the bonus 0.1 and its score is 0.6; no text receives the bonus 0.15.
\<close>

theorem length_bonus_over_200:
  "length (str_lower ascii_db (content long_message)) = 201
   \<and> length_step (str_lower ascii_db (content long_message)) (5/10) = 5/10 + 1/10
   \<and> calculate_importance_score ascii_db long_message = 6/10
   \<and> (\<forall>text score. length_step text score \<noteq> score + 15/100)"
  unfolding calculate_importance_score_def long_raw long_lower long_length
  by (simp add: length_step_def)

lemma plain_lower: "str_lower ascii_db (ascii ''hello'') = ascii ''hello''"
  by (simp add: ascii_db_def ascii_def)
lemma plain_high: "add_matches w importance_keywords_high (ascii ''hello'') s = s"
  by (rule add_matches_none) (simp add: importance_keywords_high_def ascii_def)
lemma plain_medium: "add_matches w importance_keywords_medium (ascii ''hello'') s = s"
  by (rule add_matches_none) (simp add: importance_keywords_medium_def ascii_def)
lemma plain_pronouns: "add_matches w personal_pronouns (ascii ''hello'') s = s"
  by (rule add_matches_none) (simp add: personal_pronouns_def ascii_def)
lemma plain_question: "question_step (ascii ''hello'') s = s"
  by (simp add: question_step_def ascii_def)
lemma plain_length: "length_step (ascii ''hello'') s = s"
  by (simp add: length_step_def ascii_def)

lemma plain_raw: "raw_importance_score ascii_db plain_message = 5/10"
  unfolding raw_importance_score_def Let_def
  by (simp add: plain_message_def plain_lower plain_high plain_medium plain_pronouns
      plain_question plain_length emotion_step_def)

text \<open>
  C6 (as amended). The importance score is the clamped sum of the score without emotion and an
  emotion bonus: the weight of the table for a detected emotion that the table knows, the
  default 0.05 for a detected emotion that the table does not know, and nothing when no emotion
  is detected (\<open>None\<close> or the empty string).
\<close>

theorem emotion_bonus:
  "(emotion_detected message = Some e \<and> e \<noteq> [] \<and> map_of emotion_weights e = Some w \<longrightarrow>
      calculate_importance_score U message =
        max 0 (min 1 (raw_importance_score U (message\<lparr>emotion_detected := None\<rparr>) + w)))
   \<and> (emotion_detected message = Some e \<and> e \<noteq> [] \<and> map_of emotion_weights e = None \<longrightarrow>
      calculate_importance_score U message =
        max 0 (min 1 (raw_importance_score U (message\<lparr>emotion_detected := None\<rparr>) + 5/100)))
   \<and> (emotion_detected message = None \<or> emotion_detected message = Some [] \<longrightarrow>
      calculate_importance_score U message =
        max 0 (min 1 (raw_importance_score U (message\<lparr>emotion_detected := None\<rparr>))))"
  unfolding calculate_importance_score_def raw_split_emotion [of U message]
  by (auto simp: emotion_step_def)

lemma plain_none: "plain_message\<lparr>emotion_detected := None\<rparr> = plain_message"
  by (simp add: plain_message_def)

text \<open>The three cases at the text \<open>hello\<close>: emotion \<open>sad\<close>, \<open>stable\<close>, none.\<close>

theorem emotion_bonus_witness:
  "calculate_importance_score ascii_db sad_emotion_message = 7/10
   \<and> calculate_importance_score ascii_db odd_emotion_message = 55/100
   \<and> calculate_importance_score ascii_db plain_message = 5/10"
proof -
  have sad: "map_of emotion_weights (ascii ''sad'') = Some (2/10)"
    by (simp add: emotion_weights_def ascii_def)
  have odd: "map_of emotion_weights (ascii ''stable'') = None"
    by (simp add: emotion_weights_def ascii_def)
  have ne: "ascii ''sad'' \<noteq> []" "ascii ''stable'' \<noteq> []"
    by (simp_all add: ascii_def)
  have 1: "calculate_importance_score ascii_db sad_emotion_message = 7/10"
    using emotion_bonus [where message = sad_emotion_message and e = "ascii ''sad''"
        and w = "2/10" and U = ascii_db] sad ne
    by (simp add: sad_emotion_message_def plain_none plain_raw)
  have 2: "calculate_importance_score ascii_db odd_emotion_message = 55/100"
    using emotion_bonus [where message = odd_emotion_message and e = "ascii ''stable''"
        and U = ascii_db] odd ne
    by (simp add: odd_emotion_message_def plain_none plain_raw)
  have 3: "calculate_importance_score ascii_db plain_message = 5/10"
    using emotion_bonus [where message = plain_message and U = ascii_db]
    by (simp add: plain_none plain_raw) (simp add: plain_message_def)
  from 1 2 3 show ?thesis by simp
qed

text \<open>
  C6 as stated fails: with no detected emotion the default bonus is not added, and a message
  with no signal at all scores the base value 0.5.
\<close>

theorem absent_emotion_counterexample:
  "emotion_detected plain_message = None
   \<and> calculate_importance_score ascii_db plain_message = 5/10
   \<and> calculate_importance_score ascii_db plain_message \<noteq>
       max 0 (min 1 (raw_importance_score ascii_db (plain_message\<lparr>emotion_detected := None\<rparr>) + 5/100))"
  by (simp add: calculate_importance_score_def plain_none plain_raw) (simp add: plain_message_def)

section \<open>The relevance ranker: properties\<close>



lemma finite_keyword_set: "finite (keyword_set U text)"
  by (simp add: keyword_set_def)




lemma kw_family_weather:
  "keyword_set ascii_db (ascii ''family weather'') = {ascii ''family'', ascii ''weather''}"
  by (simp add: keyword_set_def extract_keywords_def ascii_db_def ascii_def token_char_def
      stop_words_def)



lemma score_loop_b64_append:
  "score_loop_b64 U now cw ms acc = acc @ score_loop_b64 U now cw ms []"
proof (induction ms arbitrary: acc)
  case Nil
  then show ?case by simp
next
  case (Cons m ms)
  show ?case
  proof (cases "score_memory_b64 U now cw m")
    case None
    then show ?thesis using Cons.IH [of acc] by simp
  next
    case (Some s)
    then show ?thesis
      using Cons.IH [of "acc @ [(m, s)]"] Cons.IH [of "[(m, s)]"] by simp
  qed
qed

lemma score_loop_b64_Cons:
  "score_loop_b64 U now cw (m # ms) [] =
     (case score_memory_b64 U now cw m of
        Some s \<Rightarrow> (m, s) # score_loop_b64 U now cw ms []
      | None \<Rightarrow> score_loop_b64 U now cw ms [])"
proof (cases "score_memory_b64 U now cw m")
  case None
  then show ?thesis by simp
next
  case (Some s)
  then show ?thesis
    using score_loop_b64_append [of U now cw ms "[(m, s)]"] by simp
qed

lemma score_loop_b64_fst:
  "map fst (score_loop_b64 U now cw ms [])
     = filter (\<lambda>m. score_memory_b64 U now cw m \<noteq> None) ms"
  by (induction ms)
    (auto simp: score_loop_b64_Cons simp del: score_loop_b64.simps(2) split: option.splits)

lemma score_loop_b64_snd:
  "x \<in> set (score_loop_b64 U now cw ms []) \<Longrightarrow> score_memory_b64 U now cw (fst x) = Some (snd x)"
  by (induction ms)
    (auto simp: score_loop_b64_Cons simp del: score_loop_b64.simps(2) split: option.splits)

lemma rank_candidates_eq:
  "rank_candidates U now q limit pool =
     map fst (filter (\<lambda>x. b64 (2/10) < snd x)
       (py_take limit (sort_key (\<lambda>x. - snd x) (score_loop_b64 U now (keyword_set U q) pool []))))"
proof (cases pool)
  case Nil
  then show ?thesis by (simp add: rank_candidates_def py_take_def)
next
  case (Cons m ms)
  have "rank_candidates U now q limit pool =
     map fst (filter (\<lambda>(memory, score). b64 (2/10) < score)
       (py_take limit (sort_by_score_desc
          (score_loop_b64 U now (set (extract_keywords U (str_lower U q))) pool []))))"
    unfolding rank_candidates_def Let_def using Cons by (simp only: list.distinct if_False)
  then show ?thesis
    by (simp only: sort_by_score_desc_def keyword_set_def case_prod_unfold)
qed

lemma py_take_is_take: "\<exists>k. py_take n xs = take k xs"
  by (auto simp: py_take_def)

lemma length_py_take: "0 \<le> n \<Longrightarrow> length (py_take n xs) \<le> nat n"
  by (simp add: py_take_def)

lemma set_py_take: "set (py_take n xs) \<subseteq> set xs"
  by (auto simp: py_take_def dest: in_set_takeD)

lemma rank_length: "0 \<le> limit \<Longrightarrow> length (rank_candidates U now q limit pool) \<le> nat limit"
proof -
  assume l: "0 \<le> limit"
  define ss where "ss = sort_key (\<lambda>x. - snd x) (score_loop_b64 U now (keyword_set U q) pool [])"
  have "length (filter (\<lambda>x. b64 (2/10) < snd x) (py_take limit ss)) \<le> length (py_take limit ss)"
    by (rule length_filter_le)
  also have "\<dots> \<le> nat limit"
    by (rule length_py_take [OF l])
  finally have "length (map fst (filter (\<lambda>x. b64 (2/10) < snd x) (py_take limit ss))) \<le> nat limit"
    by (simp only: length_map)
  then show ?thesis
    unfolding rank_candidates_eq ss_def .
qed

lemma rank_pairs:
  fixes ps :: "('a \<times> real) list"
  assumes "x \<in> set (filter (\<lambda>x. c < snd x) (py_take limit (sort_key (\<lambda>x. - snd x) ps)))"
  shows "x \<in> set ps \<and> c < snd x"
proof -
  from assms have a: "x \<in> set (py_take limit (sort_key (\<lambda>x. - snd x) ps))"
    and b: "c < snd x"
    by (simp_all only: set_filter mem_Collect_eq)
  have "set (py_take limit (sort_key (\<lambda>x. - snd x) ps)) \<subseteq> set (sort_key (\<lambda>x. - snd x) ps)"
    by (rule set_py_take)
  with a have "x \<in> set (sort_key (\<lambda>x. - snd x) ps)"
    by (rule subsetD [rotated])
  then have "x \<in> set ps"
    by (simp only: set_sort)
  from this b show ?thesis
    by (rule conjI)
qed

lemma rank_member:
  assumes "m \<in> set (rank_candidates U now q limit pool)"
  shows "m \<in> set pool
         \<and> (\<exists>s. score_memory_b64 U now (keyword_set U q) m = Some s \<and> b64 (2/10) < s)"
proof -
  define ps where "ps = score_loop_b64 U now (keyword_set U q) pool []"
  from assms obtain x where
    x: "x \<in> set (filter (\<lambda>x. b64 (2/10) < snd x) (py_take limit (sort_key (\<lambda>x. - snd x) ps)))"
    and m: "m = fst x"
    unfolding rank_candidates_eq ps_def by auto
  from rank_pairs [OF x] have p: "x \<in> set ps" and s: "b64 (2/10) < snd x"
    by simp_all
  from p have "fst x \<in> set (map fst ps)"
    by simp
  then have "fst x \<in> set pool"
    unfolding ps_def score_loop_b64_fst by simp
  moreover from p have "score_memory_b64 U now (keyword_set U q) (fst x) = Some (snd x)"
    unfolding ps_def by (rule score_loop_b64_snd)
  ultimately show ?thesis
    using s m by simp
qed

lemma contextual_is_rank:
  "\<exists>pool. fst (get_contextually_relevant_memories U now uid q limit db)
          = rank_candidates U now q limit pool"
proof (cases "get_relevant_memories uid (Some LONG_TERM) 50 db")
  case (Pair r db')
  show ?thesis
  proof (cases r)
    case (Inl e)
    with Pair have "fst (get_contextually_relevant_memories U now uid q limit db)
               = rank_candidates U now q limit []"
      by (simp add: get_contextually_relevant_memories_def rank_candidates_def)
    then show ?thesis by (rule exI)
  next
    case (Inr pool)
    with Pair have "fst (get_contextually_relevant_memories U now uid q limit db)
               = rank_candidates U now q limit pool"
      by (simp add: get_contextually_relevant_memories_def)
    then show ?thesis by (rule exI)
  qed
qed

section \<open>Binary64 arithmetic: properties\<close>

text \<open>
  The exponent of the binade: \<open>ilog2 x\<close> is the one integer \<open>k\<close> with
  \<open>pow2 k \<le> x < pow2 (k + 1)\<close>.
\<close>

lemma pow2_powr: "pow2 k = 2 powr of_int k"
proof (cases "0 \<le> k")
  case True
  then show ?thesis
    by (simp add: pow2_def powr_realpow [symmetric])
next
  case False
  then have "real (nat (- k)) = - of_int k"
    by simp
  then have "2 powr of_int k = 2 powr (- real (nat (- k)))"
    by simp
  also have "\<dots> = 1 / 2 powr real (nat (- k))"
    by (rule powr_minus_divide)
  also have "\<dots> = 1 / 2 ^ nat (- k)"
    by (simp add: powr_realpow)
  finally show ?thesis
    using False by (simp add: pow2_def)
qed

lemma pow2_pos: "0 < pow2 k"
  by (simp add: pow2_powr)

lemma pow2_add: "pow2 (a + b) = pow2 a * pow2 b"
  by (simp add: pow2_powr powr_add)

lemma pow2_mono: "a \<le> b \<Longrightarrow> pow2 a \<le> pow2 b"
  by (simp add: pow2_powr)

lemma pow2_less: "pow2 a < pow2 b \<longleftrightarrow> a < b"
  by (simp add: pow2_powr)

lemma pow2_le: "pow2 a \<le> pow2 b \<longleftrightarrow> a \<le> b"
  by (simp add: pow2_powr)

lemma pow2_nat: "0 \<le> k \<Longrightarrow> pow2 k = 2 ^ nat k"
  by (simp add: pow2_def)

lemma ilog2_bounds:
  assumes "0 < x"
  shows "pow2 (ilog2 x) \<le> x \<and> x < pow2 (ilog2 x + 1)"
proof (cases "1 \<le> x")
  case True
  then have p: "0 < \<lfloor>x\<rfloor>" by simp
  from bitlen_bounds [OF p]
  have lo: "(2::int) ^ nat (bitlen \<lfloor>x\<rfloor> - 1) \<le> \<lfloor>x\<rfloor>" and hi: "\<lfloor>x\<rfloor> < 2 ^ nat (bitlen \<lfloor>x\<rfloor>)"
    by simp_all
  have b: "1 \<le> bitlen \<lfloor>x\<rfloor>"
    using p bitlen_eq_zero_iff [of "\<lfloor>x\<rfloor>"] bitlen_nonneg [of "\<lfloor>x\<rfloor>"] by linarith
  from lo have "real_of_int (2 ^ nat (bitlen \<lfloor>x\<rfloor> - 1)) \<le> real_of_int \<lfloor>x\<rfloor>"
    by (simp only: of_int_le_iff)
  then have "(2::real) ^ nat (bitlen \<lfloor>x\<rfloor> - 1) \<le> real_of_int \<lfloor>x\<rfloor>"
    by (simp only: of_int_power of_int_numeral)
  moreover have "real_of_int \<lfloor>x\<rfloor> \<le> x"
    by (rule of_int_floor_le)
  ultimately have "(2::real) ^ nat (bitlen \<lfloor>x\<rfloor> - 1) \<le> x"
    by (rule order_trans)
  then have 1: "pow2 (bitlen \<lfloor>x\<rfloor> - 1) \<le> x"
    using b by (simp add: pow2_nat)
  have "\<lfloor>x\<rfloor> + 1 \<le> 2 ^ nat (bitlen \<lfloor>x\<rfloor>)"
    using hi by simp
  then have "real_of_int (\<lfloor>x\<rfloor> + 1) \<le> real_of_int (2 ^ nat (bitlen \<lfloor>x\<rfloor>))"
    by (simp only: of_int_le_iff)
  then have "real_of_int \<lfloor>x\<rfloor> + 1 \<le> 2 ^ nat (bitlen \<lfloor>x\<rfloor>)"
    by (simp only: of_int_add of_int_1 of_int_power of_int_numeral)
  moreover have "x < real_of_int \<lfloor>x\<rfloor> + 1"
    by linarith
  ultimately have "x < 2 ^ nat (bitlen \<lfloor>x\<rfloor>)"
    by (rule less_le_trans [rotated])
  then have 2: "x < pow2 (bitlen \<lfloor>x\<rfloor>)"
    using b by (simp add: pow2_nat)
  from 1 2 True show ?thesis
    by (simp add: ilog2_def)
next
  case False
  define N where "N = \<lceil>1 / x\<rceil>"
  from False assms have x1: "1 < 1 / x" by simp
  then have N2: "2 \<le> N" unfolding N_def by linarith
  then have p: "0 < N - 1" by simp
  from bitlen_bounds [OF p]
  have lo: "(2::int) ^ nat (bitlen (N - 1) - 1) \<le> N - 1" and hi: "N - 1 < 2 ^ nat (bitlen (N - 1))"
    by simp_all
  have b: "1 \<le> bitlen (N - 1)"
    using p bitlen_eq_zero_iff [of "N - 1"] bitlen_nonneg [of "N - 1"] by linarith
  have "N \<le> 2 ^ nat (bitlen (N - 1))"
    using hi by simp
  then have "real_of_int N \<le> real_of_int (2 ^ nat (bitlen (N - 1)))"
    by (simp only: of_int_le_iff)
  then have "real_of_int N \<le> 2 ^ nat (bitlen (N - 1))"
    by (simp only: of_int_power of_int_numeral)
  moreover have "1 / x \<le> real_of_int N"
    unfolding N_def by (rule le_of_int_ceiling)
  ultimately have "1 / x \<le> 2 ^ nat (bitlen (N - 1))"
    by (rule order_trans [rotated])
  then have "1 / 2 ^ nat (bitlen (N - 1)) \<le> x"
    using assms by (simp add: field_simps)
  then have 1: "pow2 (- bitlen (N - 1)) \<le> x"
    using b by (simp add: pow2_def)
  from lo have "real_of_int (2 ^ nat (bitlen (N - 1) - 1)) \<le> real_of_int (N - 1)"
    by (simp only: of_int_le_iff)
  then have "(2::real) ^ nat (bitlen (N - 1) - 1) \<le> real_of_int (N - 1)"
    by (simp only: of_int_power of_int_numeral)
  moreover have "real_of_int (N - 1) < 1 / x"
    unfolding N_def by simp linarith
  ultimately have "2 ^ nat (bitlen (N - 1) - 1) < 1 / x"
    by (rule le_less_trans)
  then have "x < 1 / 2 ^ nat (bitlen (N - 1) - 1)"
    using assms by (simp add: field_simps)
  moreover have "pow2 (- bitlen (N - 1) + 1) = 1 / 2 ^ nat (bitlen (N - 1) - 1)"
    using b by (cases "bitlen (N - 1) = 1") (simp_all add: pow2_def)
  ultimately have 2: "x < pow2 (- bitlen (N - 1) + 1)"
    by simp
  from 1 2 False show ?thesis
    by (simp add: ilog2_def N_def)
qed

lemma ilog2_unique:
  assumes "pow2 k \<le> x" and "x < pow2 (k + 1)"
  shows "ilog2 x = k"
proof -
  have x: "0 < x" using assms(1) pow2_pos [of k] by linarith
  from ilog2_bounds [OF x] have a: "pow2 (ilog2 x) \<le> x" and b: "x < pow2 (ilog2 x + 1)"
    by simp_all
  from a assms(2) have "pow2 (ilog2 x) < pow2 (k + 1)" by linarith
  then have 1: "ilog2 x < k + 1" by (simp only: pow2_less)
  from assms(1) b have "pow2 k < pow2 (ilog2 x + 1)" by linarith
  then have 2: "k < ilog2 x + 1" by (simp only: pow2_less)
  from 1 2 show ?thesis by linarith
qed

text \<open>Evaluation of \<open>b64\<close> at a numeral: the bit length by halving.\<close>

lemma bitlen_numeral: "bitlen (numeral n) = bitlen (numeral n div 2) + 1"
  by (subst compute_bitlen) simp

lemma bitlen_one: "bitlen 1 = 1"
  by (subst compute_bitlen) simp

lemmas b64_eval =
  b64_def ilog2_def pow2_def round_half_even_def Let_def bitlen_numeral bitlen_one

lemma b64_literals:
  "b64 (5/10) = 1/2"
  "b64 (3/10) = 5404319552844595 / 2 ^ 54"
  "b64 (1/10) = 3602879701896397 / 2 ^ 55"
  "b64 (2/10) = 3602879701896397 / 2 ^ 54"
  "b64 1 = 1"
  by (simp_all add: b64_eval)

lemma b64_cutoff: "2/10 < b64 (2/10)"
  unfolding b64_literals by simp

section \<open>The relevance ranker: bound, order and cutoff\<close>

text \<open>
  C2. For every owner, query, store and limit that is not negative, the ranking operation
  returns at most \<open>limit\<close> records, and each returned record has a final score, as the
  ranker computes it, above the binary64 number of \<open>0.2\<close>, hence above 0.2.
\<close>

theorem rank_bounded:
  assumes "0 \<le> limit"
  shows "length (fst (get_contextually_relevant_memories U now uid q limit db)) \<le> nat limit
         \<and> (\<forall>m \<in> set (fst (get_contextually_relevant_memories U now uid q limit db)).
              \<exists>s. score_memory_b64 U now (keyword_set U q) m = Some s
                  \<and> b64 (2/10) < s \<and> 2/10 < s)"
proof -
  from contextual_is_rank obtain pool where
    p: "fst (get_contextually_relevant_memories U now uid q limit db)
        = rank_candidates U now q limit pool"
    by blast
  have 1: "length (rank_candidates U now q limit pool) \<le> nat limit"
    by (rule rank_length [OF assms])
  have 2: "\<exists>s. score_memory_b64 U now (keyword_set U q) m = Some s \<and> b64 (2/10) < s \<and> 2/10 < s"
    if "m \<in> set (rank_candidates U now q limit pool)" for m
  proof -
    from rank_member [OF that] obtain s where
      s: "score_memory_b64 U now (keyword_set U q) m = Some s" and c: "b64 (2/10) < s"
      by blast
    from b64_cutoff c have "2/10 < s"
      by (rule less_trans)
    with s c show ?thesis
      by blast
  qed
  from 1 2 show ?thesis
    unfolding p by simp
qed

lemma score_memory_b64_eq:
  "score_memory_b64 U now cw m =
     (if 0 < card (cw \<union> keyword_set U (mem_content m)) then
        Some (b64 (b64 (b64 (b64 (b64 (real (card (cw \<inter> keyword_set U (mem_content m)))
                                       / real (card (cw \<union> keyword_set U (mem_content m))))
                                  * b64 (5/10))
                             + b64 (importance_score m * b64 (3/10)))
                        + b64 (b64 (calculate_time_relevance now (created_at m)) * b64 (1/10)))
                   + b64 (min 1 (b64 (real_of_int (access_count m) / 10)) * b64 (1/10))))
      else None)"
  by (simp only: score_memory_b64_def Let_def keyword_set_def)

lemmas kw_eval =
  keyword_set_def extract_keywords_def ascii_db_def ascii_def token_char_def stop_words_def

lemma kw_query: "keyword_set ascii_db (ascii ''aaa bbb'') = {ascii ''aaa'', ascii ''bbb''}"
  by (simp add: kw_eval)

lemma kw_cutoff:
  "keyword_set ascii_db (ascii ''aaa ccc ddd'') = {ascii ''aaa'', ascii ''ccc'', ascii ''ddd''}"
  by (simp add: kw_eval)

lemma kw_faint: "keyword_set ascii_db (ascii ''zzz yyy'') = {ascii ''zzz'', ascii ''yyy''}"
  by (simp add: kw_eval)

lemma kw_fainter: "keyword_set ascii_db (ascii ''xxx'') = {ascii ''xxx''}"
  by (simp add: kw_eval)

lemma cutoff_score:
  "score_memory_b64 ascii_db hundred_days {ascii ''aaa'', ascii ''bbb''} (cutoff_memory i)
     = Some (7205759403792795 / 2 ^ 55)"
proof -
  have m: "mem_content (cutoff_memory i) = ascii ''aaa ccc ddd''"
    "importance_score (cutoff_memory i) = 3602879701896397 / 2 ^ 56"
    "created_at (cutoff_memory i) = 0" "access_count (cutoff_memory i) = 4"
    by (simp_all add: cutoff_memory_def long_term_memory_def)
  have c: "card ({ascii ''aaa'', ascii ''bbb''} \<inter> {ascii ''aaa'', ascii ''ccc'', ascii ''ddd''}) = 1"
    "card ({ascii ''aaa'', ascii ''bbb''} \<union> {ascii ''aaa'', ascii ''ccc'', ascii ''ddd''}) = 4"
    by (simp_all add: ascii_def card_insert_if)
  have t: "calculate_time_relevance hundred_days 0 = 2/10"
    by (simp add: calculate_time_relevance_def hundred_days_def td_days_def us_per_day_def)
  show ?thesis
    unfolding score_memory_b64_eq m kw_cutoff c t
    by (simp add: b64_eval)
qed

lemma recent_score:
  "score_memory_b64 ascii_db hundred_days {ascii ''aaa'', ascii ''bbb''} (recent_memory i)
     = Some (3715469692580659 / 2 ^ 52)"
proof -
  have m: "mem_content (recent_memory i) = ascii ''aaa bbb''"
    "importance_score (recent_memory i) = 3/4"
    "created_at (recent_memory i) = hundred_days" "access_count (recent_memory i) = 0"
    by (simp_all add: recent_memory_def long_term_memory_def)
  have c: "card ({ascii ''aaa'', ascii ''bbb''} \<inter> {ascii ''aaa'', ascii ''bbb''}) = 2"
    "card ({ascii ''aaa'', ascii ''bbb''} \<union> {ascii ''aaa'', ascii ''bbb''}) = 2"
    by (simp_all add: ascii_def card_insert_if)
  have t: "calculate_time_relevance hundred_days hundred_days = 1"
    by (simp add: calculate_time_relevance_def td_days_def us_per_day_def)
  show ?thesis
    unfolding score_memory_b64_eq m kw_query c t
    by (simp add: b64_eval)
qed

lemma faint_score:
  "score_memory_b64 ascii_db hundred_days {ascii ''aaa'', ascii ''bbb''} (faint_memory i)
     = Some (3422735716801577 / 2 ^ 55)"
proof -
  have m: "mem_content (faint_memory i) = ascii ''zzz yyy''"
    "importance_score (faint_memory i) = 1/4"
    "created_at (faint_memory i) = 0" "access_count (faint_memory i) = 0"
    by (simp_all add: faint_memory_def long_term_memory_def)
  have c: "card ({ascii ''aaa'', ascii ''bbb''} \<inter> {ascii ''zzz'', ascii ''yyy''}) = 0"
    "card ({ascii ''aaa'', ascii ''bbb''} \<union> {ascii ''zzz'', ascii ''yyy''}) = 4"
    by (simp_all add: ascii_def card_insert_if)
  have t: "calculate_time_relevance hundred_days 0 = 2/10"
    by (simp add: calculate_time_relevance_def hundred_days_def td_days_def us_per_day_def)
  show ?thesis
    unfolding score_memory_b64_eq m kw_faint c t
    by (simp add: b64_eval)
qed

lemma fainter_score:
  "score_memory_b64 ascii_db hundred_days {ascii ''aaa'', ascii ''bbb''} (fainter_memory i)
     = Some (8286623314361713 / 2 ^ 57)"
proof -
  have m: "mem_content (fainter_memory i) = ascii ''xxx''"
    "importance_score (fainter_memory i) = 1/8"
    "created_at (fainter_memory i) = 0" "access_count (fainter_memory i) = 0"
    by (simp_all add: fainter_memory_def long_term_memory_def)
  have c: "card ({ascii ''aaa'', ascii ''bbb''} \<inter> {ascii ''xxx''}) = 0"
    "card ({ascii ''aaa'', ascii ''bbb''} \<union> {ascii ''xxx''}) = 3"
    by (simp_all add: ascii_def card_insert_if)
  have t: "calculate_time_relevance hundred_days 0 = 2/10"
    by (simp add: calculate_time_relevance_def hundred_days_def td_days_def us_per_day_def)
  show ?thesis
    unfolding score_memory_b64_eq m kw_fainter c t
    by (simp add: b64_eval)
qed

lemma ranker_store_query:
  "get_relevant_memories (ascii ''u'') (Some LONG_TERM) 50 ranker_store
     = (Inr [recent_memory (IdStr (str_of_oid 0)), faint_memory (IdStr (str_of_oid 2)),
             fainter_memory (IdStr (str_of_oid 3)), cutoff_memory (IdStr (str_of_oid 1))],
        ranker_store)"
  by (simp add: get_relevant_memories_def next_call_def ranker_store_def recent_memory_def
      cutoff_memory_def faint_memory_def fainter_memory_def long_term_memory_def
      mongo_limit_def load_memory_def convert_objectid_to_str_def hundred_days_def us_per_day_def)

lemma ranker_store_scored:
  "score_loop_b64 ascii_db hundred_days (keyword_set ascii_db (ascii ''aaa bbb''))
     [recent_memory a, faint_memory b, fainter_memory c, cutoff_memory d] []
   = [(recent_memory a, 3715469692580659 / 2 ^ 52), (faint_memory b, 3422735716801577 / 2 ^ 55),
      (fainter_memory c, 8286623314361713 / 2 ^ 57), (cutoff_memory d, 7205759403792795 / 2 ^ 55)]"
  unfolding kw_query
  by (simp only: score_loop_b64_Cons recent_score faint_score fainter_score cutoff_score
      option.case score_loop_b64.simps(1))

lemma ranker_store_rank:
  "rank_candidates ascii_db hundred_days (ascii ''aaa bbb'') 3
     [recent_memory a, faint_memory b, fainter_memory c, cutoff_memory d]
   = [recent_memory a, cutoff_memory d]"
  unfolding rank_candidates_eq ranker_store_scored b64_literals
  by (simp add: py_take_def)

lemma ranker_store_context:
  "get_contextually_relevant_memories ascii_db hundred_days (ascii ''u'') (ascii ''aaa bbb'') 3
     ranker_store
   = ([recent_memory (IdStr (str_of_oid 0)), cutoff_memory (IdStr (str_of_oid 1))], ranker_store)"
  by (simp only: get_contextually_relevant_memories_def ranker_store_query ranker_store_rank
      prod.case sum.case)

text \<open>
  The record at the cutoff alone: its computed score exceeds the cutoff by one unit in the last
  place, and it is returned.
\<close>

lemma cutoff_rank:
  "rank_candidates ascii_db hundred_days (ascii ''aaa bbb'') 5 [cutoff_memory i] = [cutoff_memory i]"
proof -
  have "score_loop_b64 ascii_db hundred_days (keyword_set ascii_db (ascii ''aaa bbb''))
          [cutoff_memory i] [] = [(cutoff_memory i, 7205759403792795 / 2 ^ 55)]"
    unfolding kw_query
    by (simp only: score_loop_b64_Cons cutoff_score option.case score_loop_b64.simps(1))
  then show ?thesis
    unfolding rank_candidates_eq b64_literals
    by (simp add: py_take_def)
qed

text \<open>
  The ranking of the store of four memories with limit 3: the order of retrieval is by
  importance, the sort moves the record at the cutoff to the second place, the slice drops the
  last record, and the cutoff drops the third.
\<close>

theorem rank_bounded_witness:
  "(0::int) \<le> 3
   \<and> fst (get_contextually_relevant_memories ascii_db hundred_days (ascii ''u'')
           (ascii ''aaa bbb'') 3 ranker_store)
       = [recent_memory (IdStr (str_of_oid 0)), cutoff_memory (IdStr (str_of_oid 1))]
   \<and> length (fst (get_contextually_relevant_memories ascii_db hundred_days (ascii ''u'')
           (ascii ''aaa bbb'') 3 ranker_store)) \<le> nat 3
   \<and> (\<exists>s. score_memory_b64 ascii_db hundred_days (keyword_set ascii_db (ascii ''aaa bbb''))
             (recent_memory (IdStr (str_of_oid 0))) = Some s \<and> b64 (2/10) < s \<and> 2/10 < s)
   \<and> (\<exists>s. score_memory_b64 ascii_db hundred_days (keyword_set ascii_db (ascii ''aaa bbb''))
             (cutoff_memory (IdStr (str_of_oid 1))) = Some s \<and> b64 (2/10) < s \<and> 2/10 < s)"
proof -
  have h: "(0::int) \<le> 3" by simp
  from rank_bounded [OF h, of ascii_db hundred_days "ascii ''u''" "ascii ''aaa bbb''" ranker_store]
  show ?thesis
    unfolding ranker_store_context by simp
qed

text \<open>Order and stability of the sorted, sliced and cut list of scored candidates.\<close>

lemma filter_take_prefix: "prefix (filter P (take k xs)) (filter P xs)"
proof -
  have "filter P (take k xs @ drop k xs) = filter P (take k xs) @ filter P (drop k xs)"
    by (rule filter_append)
  then have "filter P xs = filter P (take k xs) @ filter P (drop k xs)"
    by (simp only: append_take_drop_id)
  then show ?thesis by (rule prefixI)
qed

lemma filter_score_above:
  fixes ts :: "('a \<times> real) list"
  shows "filter (\<lambda>x. snd x = s) (filter (\<lambda>x. c < snd x) ts)
         = (if c < s then filter (\<lambda>x. snd x = s) ts else [])"
  by (induction ts) auto

lemma sorted_block_prefix:
  fixes ps :: "('a \<times> real) list"
  shows "prefix
           (filter (\<lambda>x. snd x = s)
              (filter (\<lambda>x. c < snd x) (py_take n (sort_key (\<lambda>x. - snd x) ps))))
           (filter (\<lambda>x. snd x = s) ps)"
proof -
  define ss where "ss = sort_key (\<lambda>x. - snd x) ps"
  from py_take_is_take [of n ss] obtain k where k: "py_take n ss = take k ss" ..
  have "filter (\<lambda>x. - snd x = - s) ss = filter (\<lambda>x. - snd x = - s) ps"
    unfolding ss_def by (rule sort_key_stable)
  then have st: "filter (\<lambda>x. snd x = s) ss = filter (\<lambda>x. snd x = s) ps"
    by (simp only: neg_equal_iff_equal)
  have "prefix (filter (\<lambda>x. snd x = s) (take k ss)) (filter (\<lambda>x. snd x = s) ss)"
    by (rule filter_take_prefix)
  then have p: "prefix (filter (\<lambda>x. snd x = s) (py_take n ss)) (filter (\<lambda>x. snd x = s) ps)"
    by (simp only: k st)
  show ?thesis
  proof (cases "c < s")
    case True
    with p show ?thesis
      unfolding ss_def [symmetric] by (simp only: filter_score_above if_True)
  next
    case False
    then show ?thesis
      unfolding ss_def [symmetric] by (simp only: filter_score_above if_False Nil_prefix)
  qed
qed

lemma scored_filter_fst:
  assumes "\<And>x. x \<in> set xs \<Longrightarrow> score (fst x) = Some (snd x)"
  shows "filter (\<lambda>m. score m = Some s) (map fst xs) = map fst (filter (\<lambda>x. snd x = s) xs)"
  using assms by (induction xs) auto

lemma sorted_block_desc:
  fixes ps :: "('a \<times> real) list"
  shows "sorted_wrt (\<lambda>x y. snd y \<le> snd x)
           (filter (\<lambda>x. c < snd x) (py_take n (sort_key (\<lambda>x. - snd x) ps)))"
proof -
  define ss where "ss = sort_key (\<lambda>x. - snd x) ps"
  from py_take_is_take [of n ss] obtain k where k: "py_take n ss = take k ss" ..
  have "sorted (map (\<lambda>x. - snd x) ss)"
    unfolding ss_def by (rule sorted_sort_key)
  then have "sorted_wrt (\<lambda>x y. - snd x \<le> - snd y) ss"
    by (simp only: sorted_map)
  then have "sorted_wrt (\<lambda>x y. snd y \<le> snd x) ss"
    by (simp only: neg_le_iff_le)
  then have "sorted_wrt (\<lambda>x y. snd y \<le> snd x) (take k ss)"
    by (rule sorted_wrt_take)
  then have "sorted_wrt (\<lambda>x y. snd y \<le> snd x) (filter (\<lambda>x. c < snd x) (take k ss))"
    by (rule sorted_wrt_filter)
  then show ?thesis
    unfolding ss_def [symmetric] k .
qed

text \<open>
  C3. For every candidate pool the output of the ranking is sorted non-increasing by the final
  score of the records, and for every score the returned records with that score are the first
  ones, in the order of retrieval, of the records of the pool with that score: records with
  equal final scores keep the relative order in which they were retrieved.
\<close>

theorem rank_sorted_stable:
  "sorted_wrt
     (\<lambda>a b. \<exists>s t. score_memory_b64 U now (keyword_set U q) a = Some s
                 \<and> score_memory_b64 U now (keyword_set U q) b = Some t \<and> t \<le> s)
     (rank_candidates U now q limit pool)
   \<and> (\<forall>s. prefix
          (filter (\<lambda>m. score_memory_b64 U now (keyword_set U q) m = Some s)
             (rank_candidates U now q limit pool))
          (filter (\<lambda>m. score_memory_b64 U now (keyword_set U q) m = Some s) pool))"
proof -
  define cw where "cw = keyword_set U q"
  define ps where "ps = score_loop_b64 U now cw pool []"
  define os where
    "os = filter (\<lambda>x. b64 (2/10) < snd x) (py_take limit (sort_key (\<lambda>x. - snd x) ps))"
  have out: "rank_candidates U now q limit pool = map fst os"
    unfolding os_def ps_def cw_def by (rule rank_candidates_eq)
  have ps_score: "score_memory_b64 U now cw (fst x) = Some (snd x)" if "x \<in> set ps" for x
    using that unfolding ps_def by (rule score_loop_b64_snd)
  have os_ps: "x \<in> set ps" if "x \<in> set os" for x
    using rank_pairs [of x "b64 (2/10)" limit ps] that unfolding os_def by blast
  have os_score: "score_memory_b64 U now cw (fst x) = Some (snd x)" if "x \<in> set os" for x
    using that by (intro ps_score os_ps)

  have "sorted_wrt (\<lambda>x y. snd y \<le> snd x) os"
    unfolding os_def by (rule sorted_block_desc)
  then have "sorted_wrt
      (\<lambda>x y. \<exists>s t. score_memory_b64 U now cw (fst x) = Some s
                  \<and> score_memory_b64 U now cw (fst y) = Some t \<and> t \<le> s) os"
  proof (rule sorted_wrt_mono_rel [rotated])
    fix x y
    assume "x \<in> set os" "y \<in> set os" "snd y \<le> snd x"
    with os_score [of x] os_score [of y]
    show "\<exists>s t. score_memory_b64 U now cw (fst x) = Some s
                \<and> score_memory_b64 U now cw (fst y) = Some t \<and> t \<le> s"
      by blast
  qed
  then have sorted_out: "sorted_wrt
      (\<lambda>a b. \<exists>s t. score_memory_b64 U now cw a = Some s
                  \<and> score_memory_b64 U now cw b = Some t \<and> t \<le> s) (map fst os)"
    by (simp only: sorted_wrt_map)

  have stable: "prefix (filter (\<lambda>m. score_memory_b64 U now cw m = Some s) (map fst os))
                  (filter (\<lambda>m. score_memory_b64 U now cw m = Some s) pool)" for s
  proof -
    have 1: "filter (\<lambda>m. score_memory_b64 U now cw m = Some s) (map fst os)
             = map fst (filter (\<lambda>x. snd x = s) os)"
      by (rule scored_filter_fst) (rule os_score)
    have 2: "filter (\<lambda>m. score_memory_b64 U now cw m = Some s) (map fst ps)
             = map fst (filter (\<lambda>x. snd x = s) ps)"
      by (rule scored_filter_fst) (rule ps_score)
    have "map fst ps = filter (\<lambda>m. score_memory_b64 U now cw m \<noteq> None) pool"
      unfolding ps_def by (rule score_loop_b64_fst)
    then have "filter (\<lambda>m. score_memory_b64 U now cw m = Some s) (map fst ps)
               = filter (\<lambda>m. score_memory_b64 U now cw m = Some s)
                   (filter (\<lambda>m. score_memory_b64 U now cw m \<noteq> None) pool)"
      by (rule arg_cong)
    also have "\<dots> = filter (\<lambda>m. score_memory_b64 U now cw m = Some s) pool"
      by (induction pool) auto
    finally have 3: "map fst (filter (\<lambda>x. snd x = s) ps)
                     = filter (\<lambda>m. score_memory_b64 U now cw m = Some s) pool"
      unfolding 2 .
    have "prefix (filter (\<lambda>x. snd x = s) os) (filter (\<lambda>x. snd x = s) ps)"
      unfolding os_def by (rule sorted_block_prefix)
    then have "prefix (map fst (filter (\<lambda>x. snd x = s) os)) (map fst (filter (\<lambda>x. snd x = s) ps))"
      by (rule map_mono_prefix)
    then show ?thesis
      unfolding 1 3 .
  qed
  from sorted_out stable show ?thesis
    unfolding out cw_def [symmetric] by blast
qed

text \<open>Candidates that share no keyword with the query.\<close>

lemma score_memory_b64_blend:
  assumes "finite cw"
  shows "score_memory_b64 U now cw m =
     (if cw \<union> keyword_set U (mem_content m) \<noteq> {}
      then Some (blend_b64 (b64 (jaccard cw (keyword_set U (mem_content m))))
                   (importance_score m) (b64 (recency (age_in_days now (created_at m))))
                   (min 1 (b64 (real_of_int (access_count m) / 10))))
      else None)"
proof -
  have "finite (cw \<union> keyword_set U (mem_content m))"
    using assms by (simp add: finite_keyword_set)
  then have "(0 < card (cw \<union> keyword_set U (mem_content m)))
             = (cw \<union> keyword_set U (mem_content m) \<noteq> {})"
    by (simp only: card_gt_0_iff simp_thms)
  then show ?thesis
    unfolding score_memory_b64_eq
    by (simp only: blend_b64_def jaccard_def calculate_time_relevance_def recency_def
        age_in_days_def td_days_def us_per_day_def Let_def)
qed

lemma score_memory_b64_disjoint:
  assumes "keyword_set U q \<inter> keyword_set U (mem_content m) = {}"
  shows "score_memory_b64 U now (keyword_set U q) m =
           (if keyword_set U q \<union> keyword_set U (mem_content m) \<noteq> {}
            then Some (zero_overlap_score now m) else None)"
proof -
  have "jaccard (keyword_set U q) (keyword_set U (mem_content m)) = 0"
    unfolding jaccard_def assms by simp
  moreover have "b64 0 = 0"
    by (simp add: b64_def)
  ultimately show ?thesis
    unfolding score_memory_b64_blend [OF finite_keyword_set] zero_overlap_score_def
    by (simp only:)
qed

lemma score_loop_b64_member:
  "m \<in> set pool \<Longrightarrow> score_memory_b64 U now cw m = Some s
     \<Longrightarrow> (m, s) \<in> set (score_loop_b64 U now cw pool [])"
  by (induction pool)
    (auto simp: score_loop_b64_Cons simp del: score_loop_b64.simps(2) split: option.splits)

lemma top_scored_nonempty:
  fixes ps :: "('a \<times> real) list"
  assumes "x \<in> set ps" and "c < snd x" and "1 \<le> n"
  shows "filter (\<lambda>x. c < snd x) (py_take n (sort_key (\<lambda>x. - snd x) ps)) \<noteq> []"
proof -
  define ss where "ss = sort_key (\<lambda>x. - snd x) ps"
  have xs: "x \<in> set ss"
    unfolding ss_def using assms(1) by (simp only: set_sort)
  then obtain h rest where hr: "ss = h # rest"
    by (cases ss) auto
  have "sorted (map (\<lambda>x. - snd x) ss)"
    unfolding ss_def by (rule sorted_sort_key)
  with hr xs have "snd x \<le> snd h"
    by auto
  with assms(2) have ch: "c < snd h"
    by simp
  from assms(3) have "py_take n ss = h # take (nat n - 1) rest"
    unfolding hr by (simp add: py_take_def take_Cons')
  with ch show ?thesis
    unfolding ss_def [symmetric] by simp
qed

text \<open>
  C4 (as amended). When the query shares no keyword with any candidate of the pool, every scored
  candidate has similarity 0 and its final score is the blend of the other three signals,
  0.3 importance + 0.1 recency + 0.1 access factor. The ranking returns the empty sequence when
  none of these scores exceeds 0.2; it returns a record when the limit is at least 1 and a
  scored candidate has such a score above 0.2.
\<close>

theorem no_shared_token:
  assumes "\<forall>m \<in> set pool. keyword_set U q \<inter> keyword_set U (mem_content m) = {}"
  shows "(\<forall>m \<in> set pool. \<forall>s. score_memory_b64 U now (keyword_set U q) m = Some s
            \<longrightarrow> s = zero_overlap_score now m)
         \<and> ((\<forall>m \<in> set pool. zero_overlap_score now m \<le> b64 (2/10))
            \<longrightarrow> rank_candidates U now q limit pool = [])
         \<and> (1 \<le> limit
             \<and> (\<exists>m \<in> set pool. keyword_set U q \<union> keyword_set U (mem_content m) \<noteq> {}
                    \<and> b64 (2/10) < zero_overlap_score now m)
            \<longrightarrow> rank_candidates U now q limit pool \<noteq> [])"
proof (intro conjI ballI allI impI)
  fix m s
  assume "m \<in> set pool" and s: "score_memory_b64 U now (keyword_set U q) m = Some s"
  with assms have d: "keyword_set U q \<inter> keyword_set U (mem_content m) = {}"
    by blast
  from s show "s = zero_overlap_score now m"
    unfolding score_memory_b64_disjoint [OF d] by (simp split: if_splits)
next
  assume low: "\<forall>m \<in> set pool. zero_overlap_score now m \<le> b64 (2/10)"
  have none: "False" if "m \<in> set (rank_candidates U now q limit pool)" for m
  proof -
    from rank_member [OF that] obtain s where
      mp: "m \<in> set pool" and s: "score_memory_b64 U now (keyword_set U q) m = Some s"
      and above: "b64 (2/10) < s"
      by blast
    from assms mp have d: "keyword_set U q \<inter> keyword_set U (mem_content m) = {}"
      by blast
    from s have "s = zero_overlap_score now m"
      unfolding score_memory_b64_disjoint [OF d] by (simp split: if_splits)
    with low mp above show False
      by fastforce
  qed
  have "set (rank_candidates U now q limit pool) = {}"
  proof (rule equals0I)
    fix m
    assume "m \<in> set (rank_candidates U now q limit pool)"
    then show False by (rule none)
  qed
  then show "rank_candidates U now q limit pool = []"
    by (simp only: set_empty)
next
  assume a: "1 \<le> limit
             \<and> (\<exists>m \<in> set pool. keyword_set U q \<union> keyword_set U (mem_content m) \<noteq> {}
                    \<and> b64 (2/10) < zero_overlap_score now m)"
  then obtain m where mp: "m \<in> set pool"
    and ne: "keyword_set U q \<union> keyword_set U (mem_content m) \<noteq> {}"
    and above: "b64 (2/10) < zero_overlap_score now m" and l: "1 \<le> limit"
    by blast
  from assms mp have d: "keyword_set U q \<inter> keyword_set U (mem_content m) = {}"
    by blast
  have "score_memory_b64 U now (keyword_set U q) m = Some (zero_overlap_score now m)"
    unfolding score_memory_b64_disjoint [OF d] using ne by simp
  with mp have "(m, zero_overlap_score now m)
                  \<in> set (score_loop_b64 U now (keyword_set U q) pool [])"
    by (rule score_loop_b64_member)
  moreover from above have "b64 (2/10) < snd (m, zero_overlap_score now m)"
    by (simp only: snd_conv)
  ultimately have "filter (\<lambda>x. b64 (2/10) < snd x)
      (py_take limit (sort_key (\<lambda>x. - snd x) (score_loop_b64 U now (keyword_set U q) pool [])))
      \<noteq> []"
    using l by (rule top_scored_nonempty)
  then show "rank_candidates U now q limit pool \<noteq> []"
    unfolding rank_candidates_eq by (simp only: map_is_Nil_conv not_False_eq_True)
qed

lemma kw_weather: "keyword_set ascii_db (ascii ''weather'') = {ascii ''weather''}"
  by (simp add: kw_eval)

lemma weather_disjoint:
  "keyword_set ascii_db (ascii ''weather'') \<inter> keyword_set ascii_db (mem_content (recent_memory i)) = {}"
  "keyword_set ascii_db (ascii ''weather'') \<inter> keyword_set ascii_db (mem_content (faint_memory i)) = {}"
  "keyword_set ascii_db (ascii ''weather'') \<union> keyword_set ascii_db (mem_content (recent_memory i)) \<noteq> {}"
  unfolding kw_weather
  by (simp_all add: recent_memory_def faint_memory_def long_term_memory_def kw_query kw_faint)
    (simp_all add: ascii_def)

lemma recent_zero_overlap:
  "zero_overlap_score hundred_days (recent_memory i) = 1463669878895411 / 2 ^ 52"
proof -
  have m: "importance_score (recent_memory i) = 3/4"
    "created_at (recent_memory i) = hundred_days" "access_count (recent_memory i) = 0"
    by (simp_all add: recent_memory_def long_term_memory_def)
  have t: "recency (age_in_days hundred_days hundred_days) = 1"
    by (simp add: recency_def age_in_days_def)
  show ?thesis
    unfolding zero_overlap_score_def blend_b64_def m t
    by (simp add: b64_eval)
qed

lemma faint_zero_overlap:
  "zero_overlap_score hundred_days (faint_memory i) = 3422735716801577 / 2 ^ 55"
proof -
  have m: "importance_score (faint_memory i) = 1/4"
    "created_at (faint_memory i) = 0" "access_count (faint_memory i) = 0"
    by (simp_all add: faint_memory_def long_term_memory_def)
  have t: "recency (age_in_days hundred_days 0) = 2/10"
    by (simp add: recency_def age_in_days_def hundred_days_def us_per_day_def)
  show ?thesis
    unfolding zero_overlap_score_def blend_b64_def m t
    by (simp add: b64_eval)
qed

lemma recent_weather_scored:
  "score_loop_b64 ascii_db hundred_days (keyword_set ascii_db (ascii ''weather''))
     [recent_memory i] [] = [(recent_memory i, 1463669878895411 / 2 ^ 52)]"
proof -
  have "score_memory_b64 ascii_db hundred_days (keyword_set ascii_db (ascii ''weather''))
          (recent_memory i) = Some (1463669878895411 / 2 ^ 52)"
    unfolding score_memory_b64_disjoint [OF weather_disjoint(1)] recent_zero_overlap
    using weather_disjoint(3) [of i] by simp
  then show ?thesis
    by (simp only: score_loop_b64_Cons option.case score_loop_b64.simps(1))
qed

text \<open>
  C4 as stated fails: a pool of one memory of importance 0.75 created on the day of the query,
  and a query that shares no keyword with it. The memory scores 0.3 * 0.75 + 0.1 * 1.0, about
  0.325, and is returned.
\<close>

theorem no_shared_token_counterexample:
  "[recent_memory (IdStr (str_of_oid 0))] \<noteq> []
   \<and> keyword_set ascii_db (ascii ''weather'')
       \<inter> keyword_set ascii_db (mem_content (recent_memory (IdStr (str_of_oid 0)))) = {}
   \<and> rank_candidates ascii_db hundred_days (ascii ''weather'') 5
        [recent_memory (IdStr (str_of_oid 0))] = [recent_memory (IdStr (str_of_oid 0))]
   \<and> rank_candidates ascii_db hundred_days (ascii ''weather'') 5
        [recent_memory (IdStr (str_of_oid 0))] \<noteq> []"
proof -
  have "rank_candidates ascii_db hundred_days (ascii ''weather'') 5
          [recent_memory (IdStr (str_of_oid 0))] = [recent_memory (IdStr (str_of_oid 0))]"
    unfolding rank_candidates_eq recent_weather_scored b64_literals
    by (simp add: py_take_def)
  with weather_disjoint(1) [of "IdStr (str_of_oid 0)"] show ?thesis
    by simp
qed

text \<open>
  The amended statement at the query \<open>weather\<close>: a pool of one memory of importance 0.25
  and age 100 days (score about 0.095) gives the empty sequence; with the memory of importance
  0.75 added and limit 1 the result is not empty.
\<close>

theorem no_shared_token_witness:
  "keyword_set ascii_db (ascii ''weather'')
     \<inter> keyword_set ascii_db (mem_content (recent_memory (IdStr (str_of_oid 0)))) = {}
   \<and> keyword_set ascii_db (ascii ''weather'')
     \<inter> keyword_set ascii_db (mem_content (faint_memory (IdStr (str_of_oid 2)))) = {}
   \<and> zero_overlap_score hundred_days (faint_memory (IdStr (str_of_oid 2))) \<le> b64 (2/10)
   \<and> rank_candidates ascii_db hundred_days (ascii ''weather'') 5
        [faint_memory (IdStr (str_of_oid 2))] = []
   \<and> b64 (2/10) < zero_overlap_score hundred_days (recent_memory (IdStr (str_of_oid 0)))
   \<and> rank_candidates ascii_db hundred_days (ascii ''weather'') 1
        [faint_memory (IdStr (str_of_oid 2)), recent_memory (IdStr (str_of_oid 0))] \<noteq> []"
proof -
  have h1: "\<forall>m \<in> set [faint_memory (IdStr (str_of_oid 2))].
              keyword_set ascii_db (ascii ''weather'') \<inter> keyword_set ascii_db (mem_content m) = {}"
    using weather_disjoint(2) by simp
  have h2: "\<forall>m \<in> set [faint_memory (IdStr (str_of_oid 2)), recent_memory (IdStr (str_of_oid 0))].
              keyword_set ascii_db (ascii ''weather'') \<inter> keyword_set ascii_db (mem_content m) = {}"
    using weather_disjoint(1,2) by simp
  have low: "zero_overlap_score hundred_days (faint_memory (IdStr (str_of_oid 2))) \<le> b64 (2/10)"
    unfolding faint_zero_overlap b64_literals by simp
  have high: "b64 (2/10) < zero_overlap_score hundred_days (recent_memory (IdStr (str_of_oid 0)))"
    unfolding recent_zero_overlap b64_literals by simp
  from no_shared_token [OF h1, where now = hundred_days and limit = 5] low
  have 1: "rank_candidates ascii_db hundred_days (ascii ''weather'') 5
             [faint_memory (IdStr (str_of_oid 2))] = []"
    by simp
  from no_shared_token [OF h2, where now = hundred_days and limit = 1] high
    weather_disjoint(3) [of "IdStr (str_of_oid 0)"]
  have 2: "rank_candidates ascii_db hundred_days (ascii ''weather'') 1
             [faint_memory (IdStr (str_of_oid 2)), recent_memory (IdStr (str_of_oid 0))] \<noteq> []"
    by simp
  from weather_disjoint(1,2) low high 1 2 show ?thesis
    by simp
qed

section \<open>The short-term cache: properties\<close>

lemma td_seconds_under_hour:
  "(td_seconds td < 3600) = (td mod us_per_day < 3600000000)"
  unfolding td_seconds_def us_per_day_def by linarith

lemma cleanup_cache_entries:
  "(case cleanup_cache now c uid of None \<Rightarrow> [] | Some es \<Rightarrow> es)
     = filter (\<lambda>entry. (now - entry_timestamp entry) mod us_per_day < 3600000000)
         (case c uid of None \<Rightarrow> [] | Some es \<Rightarrow> es)"
  by (simp add: cleanup_cache_def Let_def td_seconds_under_hour split: option.splits)

text \<open>
  C9. The code at a cache entry that is one day and ten minutes old: the sweep tests the
  \<open>seconds\<close> field of the age, which is 600, and keeps the entry although its age exceeds
  one hour. For every cache and every time the sweep keeps exactly the entries whose age modulo
  one day is below one hour.
\<close>

theorem cleanup_keeps_day_old_entry:
  "3600000000 < day_and_ten_minutes - entry_timestamp stale_entry
   \<and> cleanup_cache day_and_ten_minutes stale_cache (ascii ''u'') = Some [stale_entry]
   \<and> (\<forall>now c uid.
         (case cleanup_cache now c uid of None \<Rightarrow> [] | Some es \<Rightarrow> es)
           = filter (\<lambda>entry. (now - entry_timestamp entry) mod us_per_day < 3600000000)
               (case c uid of None \<Rightarrow> [] | Some es \<Rightarrow> es))"
proof -
  have 1: "3600000000 < day_and_ten_minutes - entry_timestamp stale_entry"
    by (simp add: day_and_ten_minutes_def stale_entry_def us_per_day_def)
  have 2: "cleanup_cache day_and_ten_minutes stale_cache (ascii ''u'') = Some [stale_entry]"
    by (simp add: cleanup_cache_def stale_cache_def day_and_ten_minutes_def td_seconds_def
        us_per_day_def stale_entry_def)
  from 1 2 cleanup_cache_entries show ?thesis
    by blast
qed

section \<open>The access tracking: properties\<close>

lemma update_one_no_match: "\<forall>d \<in> set ds. \<not> q d \<Longrightarrow> update_one q u ds = ds"
  by (induction ds) auto

lemma next_call_memories: "memories (snd (next_call db)) = memories db"
  by (simp add: next_call_def split: list.splits)

lemma store_memory_object_ids:
  "object_ids db \<Longrightarrow> object_ids (snd (store_memory now uid text mtype score db))"
  by (auto simp: store_memory_def next_call_def object_ids_def Let_def
      split: list.splits bool.splits)

lemma update_memory_access_memories:
  assumes "object_ids db" and "\<not> is_object_id i"
  shows "memories (snd (update_memory_access now i db)) = memories db"
proof -
  have "\<forall>d \<in> set (memories db). \<not> mem_id d = i"
    using assms by (auto simp: object_ids_def list_all_iff)
  then have "update_one (\<lambda>d. mem_id d = i)
               (\<lambda>d. d\<lparr>last_accessed := now, access_count := access_count d + 1\<rparr>) (memories db)
             = memories db"
    by (rule update_one_no_match)
  then show ?thesis
    by (auto simp: update_memory_access_def next_call_def split: list.splits bool.splits)
qed

lemma update_memory_access_object_ids:
  assumes "object_ids db" and "\<not> is_object_id i"
  shows "object_ids (snd (update_memory_access now i db))"
  using assms update_memory_access_memories [OF assms, of now]
  by (simp add: object_ids_def)

lemma get_relevant_memories_memories:
  "memories (snd (get_relevant_memories uid mtype limit db)) = memories db"
  by (auto simp: get_relevant_memories_def next_call_def Let_def split: list.splits bool.splits)

lemma load_all_string_ids: "load_all ds = Inr ms \<Longrightarrow> string_ids ms"
proof (induction ds arbitrary: ms)
  case Nil
  then show ?case by (simp add: string_ids_def)
next
  case (Cons d ds)
  then show ?case
    by (auto simp: string_ids_def load_memory_def convert_objectid_to_str_def
        split: sum.splits if_splits id_value.splits)
qed

lemma get_relevant_memories_string_ids:
  "fst (get_relevant_memories uid mtype limit db) = Inr ms \<Longrightarrow> string_ids ms"
  by (auto simp: get_relevant_memories_def next_call_def Let_def
      split: list.splits bool.splits intro: load_all_string_ids)

lemma access_loop_memories:
  "object_ids db \<Longrightarrow> string_ids ms
     \<Longrightarrow> memories (snd (access_loop now label ms items db)) = memories db"
proof (induction ms arbitrary: items db)
  case Nil
  then show ?case by simp
next
  case (Cons m ms)
  from Cons.prems have i: "\<not> is_object_id (mem_id m)" and r: "string_ids ms"
    by (simp_all add: string_ids_def)
  obtain res db' where u: "update_memory_access now (mem_id m) db = (res, db')"
    by (cases "update_memory_access now (mem_id m) db")
  from update_memory_access_memories [OF Cons.prems(1) i, of now] u
  have m': "memories db' = memories db" by simp
  from update_memory_access_object_ids [OF Cons.prems(1) i, of now] u
  have o': "object_ids db'" by simp
  show ?case
  proof (cases res)
    case (Inl e)
    with u m' show ?thesis by simp
  next
    case (Inr b)
    with u m' Cons.IH [OF o' r] show ?thesis by simp
  qed
qed

lemma rank_string_ids: "string_ids pool \<Longrightarrow> string_ids (rank_candidates U now q limit pool)"
  using rank_member [of _ U now q limit pool]
  by (auto simp: string_ids_def list_all_iff)

lemma contextual_memories:
  "memories (snd (get_contextually_relevant_memories U now uid q limit db)) = memories db"
  using get_relevant_memories_memories [of uid "Some LONG_TERM" 50 db]
  by (auto simp: get_contextually_relevant_memories_def split: prod.splits sum.splits)

lemma contextual_string_ids:
  "string_ids (fst (get_contextually_relevant_memories U now uid q limit db))"
proof (cases "get_relevant_memories uid (Some LONG_TERM) 50 db")
  case (Pair r db')
  show ?thesis
  proof (cases r)
    case (Inl e)
    with Pair show ?thesis
      by (simp add: get_contextually_relevant_memories_def string_ids_def)
  next
    case (Inr pool)
    with Pair have "string_ids pool"
      using get_relevant_memories_string_ids [of uid "Some LONG_TERM" 50 db pool] by simp
    then have "string_ids (rank_candidates U now q limit pool)"
      by (rule rank_string_ids)
    with Pair Inr show ?thesis
      by (simp add: get_contextually_relevant_memories_def)
  qed
qed

lemma hello_store_stored:
  "store_conversation_memory ascii_db 0 (ascii ''u'') plain_message (empty_store, Map.empty)
     = (True, hello_store,
        update_short_term_cache (ascii ''u'') plain_message (5/10) Map.empty)"
proof -
  have s: "calculate_importance_score ascii_db plain_message = 5/10"
    by (simp add: calculate_importance_score_def plain_raw)
  have t: "role_value (role plain_message) @ ascii '': '' @ content plain_message
             = ascii ''user: hello''"
    "emotion_detected plain_message = None"
    by (simp_all add: plain_message_def role_value_def ascii_def)
  have m: "store_memory 0 (ascii ''u'') (ascii ''user: hello'') SHORT_TERM (1/2) empty_store
             = (Inr (str_of_oid 0), hello_store)"
    by (simp add: store_memory_def next_call_def empty_store_def hello_store_def
        hello_memory_def)
  show ?thesis
    unfolding store_conversation_memory_def Let_def s store_short_term_memory_def t
    by (simp add: m)
qed

text \<open>
  C8. The code on a store whose documents have the \<open>ObjectId\<close> that the store generated
  at insertion: \<open>update_memory_access\<close> is called with the string of the identifier,
  its filter matches no document, and the context retrieval leaves every record of the store as
  it was, with its \<open>access_count\<close> and its \<open>last_accessed\<close>.
\<close>

theorem access_not_recorded:
  assumes "object_ids db"
  shows "memories (snd (get_relevant_context U now uid q limit db)) = memories db"
proof (cases "get_relevant_memories uid (Some SHORT_TERM) (limit div 2) db")
  case short: (Pair r1 db1)
  have m1: "memories db1 = memories db"
    using get_relevant_memories_memories [of uid "Some SHORT_TERM" "limit div 2" db] short
    by simp
  then have o1: "object_ids db1"
    using assms by (simp add: object_ids_def)
  show ?thesis
  proof (cases r1)
    case (Inl e)
    with short m1 show ?thesis
      by (simp add: get_relevant_context_def)
  next
    case (Inr short_term_memories)
    with short have s1: "string_ids short_term_memories"
      using get_relevant_memories_string_ids
        [of uid "Some SHORT_TERM" "limit div 2" db short_term_memories]
      by simp
    obtain r2 db2 where
      loop1: "access_loop now (ascii ''Recent: '') short_term_memories [] db1 = (r2, db2)"
      by (cases "access_loop now (ascii ''Recent: '') short_term_memories [] db1")
    have m2: "memories db2 = memories db"
      using access_loop_memories [OF o1 s1, of now "ascii ''Recent: ''" "[]"] loop1 m1
      by simp
    then have o2: "object_ids db2"
      using assms by (simp add: object_ids_def)
    show ?thesis
    proof (cases r2)
      case (Inl e)
      with short Inr loop1 m2 show ?thesis
        by (simp add: get_relevant_context_def)
    next
      case items: (Inr context_items)
      obtain long_term_memories db3 where
        long: "get_contextually_relevant_memories U now uid q (limit div 2) db2
                 = (long_term_memories, db3)"
        by (cases "get_contextually_relevant_memories U now uid q (limit div 2) db2")
      have m3: "memories db3 = memories db"
        using contextual_memories [of U now uid q "limit div 2" db2] long m2 by simp
      then have o3: "object_ids db3"
        using assms by (simp add: object_ids_def)
      have s3: "string_ids long_term_memories"
        using contextual_string_ids [of U now uid q "limit div 2" db2] long by simp
      obtain r4 db4 where
        loop2: "access_loop now (ascii ''Background: '') long_term_memories context_items db3
                  = (r4, db4)"
        by (cases "access_loop now (ascii ''Background: '') long_term_memories context_items db3")
      have m4: "memories db4 = memories db"
        using access_loop_memories [OF o3 s3, of now "ascii ''Background: ''" context_items]
          loop2 m3
        by simp
      show ?thesis
        using short Inr loop1 items long loop2 m4
        by (cases r4) (simp_all add: get_relevant_context_def)
    qed
  qed
qed

lemma hello_short_query:
  "get_relevant_memories (ascii ''u'') (Some SHORT_TERM) 5 hello_store
     = (Inr [hello_memory (IdStr (str_of_oid 0))], hello_store)"
  by (simp add: get_relevant_memories_def next_call_def hello_store_def hello_memory_def
      mongo_limit_def load_memory_def convert_objectid_to_str_def)

lemma hello_long_query:
  "get_relevant_memories (ascii ''u'') (Some LONG_TERM) 50 hello_store = (Inr [], hello_store)"
  by (simp add: get_relevant_memories_def next_call_def hello_store_def hello_memory_def
      mongo_limit_def)

lemma hello_update:
  "update_memory_access now (IdStr s) hello_store = (Inr False, hello_store)"
  by (simp add: update_memory_access_def next_call_def hello_store_def hello_memory_def)

lemma hello_context:
  "get_relevant_context ascii_db now (ascii ''u'') q 10 hello_store
     = ([ascii ''Recent: user: hello''], hello_store)"
proof -
  have l: "(10::int) div 2 = 5" by simp
  have c: "mem_id (hello_memory i) = i" "mem_content (hello_memory i) = ascii ''user: hello''" for i
    by (simp_all add: hello_memory_def)
  have a: "ascii ''Recent: '' @ ascii ''user: hello'' = ascii ''Recent: user: hello''"
    by (simp add: ascii_def)
  show ?thesis
    unfolding get_relevant_context_def l hello_short_query
    by (simp add: c hello_update get_contextually_relevant_memories_def hello_long_query
        rank_candidates_def a)
qed

text \<open>
  The store with the one short-term record, one second after it was stored: the record is
  returned as context, and its access count is still 0 and its time of last access still 0.
\<close>

theorem access_not_recorded_witness:
  "object_ids hello_store
   \<and> fst (get_relevant_context ascii_db 1000000 (ascii ''u'') (ascii ''hello'') 10 hello_store)
       = [ascii ''Recent: user: hello'']
   \<and> memories (snd (get_relevant_context ascii_db 1000000 (ascii ''u'') (ascii ''hello'') 10
                      hello_store))
       = [hello_memory (ObjectId 0)]
   \<and> access_count (hello_memory (ObjectId 0)) = 0
   \<and> last_accessed (hello_memory (ObjectId 0)) = 0"
proof -
  have h: "object_ids hello_store"
    by (simp add: object_ids_def hello_store_def hello_memory_def)
  have m: "memories hello_store = [hello_memory (ObjectId 0)]"
    by (simp add: hello_store_def)
  from access_not_recorded [OF h, of ascii_db 1000000 "ascii ''u''" "ascii ''hello''" 10]
  have "memories (snd (get_relevant_context ascii_db 1000000 (ascii ''u'') (ascii ''hello'') 10
                         hello_store)) = [hello_memory (ObjectId 0)]"
    unfolding m .
  with h show ?thesis
    by (simp add: hello_context) (simp add: hello_memory_def)
qed

section \<open>Failures of the store: properties\<close>

lemma store_memory_fail:
  "faults db = True # fs \<Longrightarrow>
   store_memory now uid text mtype score db = (Inl StoreUnavailable, db\<lparr>faults := fs\<rparr>)"
  by (simp add: store_memory_def next_call_def)

lemma store_memory_next:
  "faults db = False # fs \<Longrightarrow>
   store_memory now uid text mtype score db =
     (Inr (str_of_oid (next_oid db)),
      db\<lparr>memories := memories db @
             [\<lparr>mem_id = ObjectId (next_oid db), user_id = uid, memory_type = mtype,
               mem_content = text, importance_score = score, created_at = now,
               last_accessed = now, access_count = 0\<rparr>],
         next_oid := Suc (next_oid db), faults := fs\<rparr>)"
  by (simp add: store_memory_def next_call_def)

lemma get_relevant_memories_fail:
  "faults db = True # fs \<Longrightarrow>
   get_relevant_memories uid mtype limit db = (Inl StoreUnavailable, db\<lparr>faults := fs\<rparr>)"
  by (simp add: get_relevant_memories_def next_call_def)

lemma get_relevant_memories_next:
  "faults db = False # fs \<Longrightarrow>
   get_relevant_memories uid mtype limit db =
     (fst (get_relevant_memories uid mtype limit (db\<lparr>faults := []\<rparr>)), db\<lparr>faults := fs\<rparr>)"
  by (simp add: get_relevant_memories_def next_call_def Let_def)

lemma get_relevant_memories_same:
  "memories a = memories b \<Longrightarrow>
   fst (get_relevant_memories uid mtype limit (a\<lparr>faults := []\<rparr>))
     = fst (get_relevant_memories uid mtype limit (b\<lparr>faults := []\<rparr>))"
  by (simp add: get_relevant_memories_def next_call_def Let_def)

lemma update_memory_access_fail:
  "faults db = True # fs \<Longrightarrow>
   update_memory_access now i db = (Inl StoreUnavailable, db\<lparr>faults := fs\<rparr>)"
  by (simp add: update_memory_access_def next_call_def)

lemma update_memory_access_next:
  "faults db = False # fs \<Longrightarrow>
   \<exists>b db'. update_memory_access now i db = (Inr b, db') \<and> faults db' = fs"
  by (simp add: update_memory_access_def next_call_def)

lemma access_loop_fail:
  "j < length ms \<Longrightarrow> faults db = replicate j False @ True # fs
     \<Longrightarrow> fst (access_loop now label ms items db) = Inl StoreUnavailable"
proof (induction ms arbitrary: j db items)
  case Nil
  then show ?case by simp
next
  case (Cons m ms)
  show ?case
  proof (cases j)
    case 0
    with Cons.prems have "faults db = True # fs" by simp
    then show ?thesis
      by (simp add: update_memory_access_fail)
  next
    case (Suc k)
    with Cons.prems have f: "faults db = False # (replicate k False @ True # fs)"
      and k: "k < length ms"
      by simp_all
    from update_memory_access_next [OF f, of now "mem_id m"] obtain b db' where
      u: "update_memory_access now (mem_id m) db = (Inr b, db')"
      and f': "faults db' = replicate k False @ True # fs"
      by blast
    from Cons.IH [OF k f'] u show ?thesis
      by simp
  qed
qed

lemma access_loop_next:
  "faults db = replicate (length ms) False @ rest
     \<Longrightarrow> \<exists>db'. access_loop now label ms items db
                  = (Inr (items @ map (\<lambda>m. label @ mem_content m) ms), db')
              \<and> faults db' = rest"
proof (induction ms arbitrary: db items)
  case Nil
  then show ?case by simp
next
  case (Cons m ms)
  then have f: "faults db = False # (replicate (length ms) False @ rest)"
    by simp
  from update_memory_access_next [OF f, of now "mem_id m"] obtain b db' where
    u: "update_memory_access now (mem_id m) db = (Inr b, db')"
    and f': "faults db' = replicate (length ms) False @ rest"
    by blast
  from Cons.IH [OF f', of "items @ [label @ mem_content m]"] u show ?case
    by simp
qed

lemma contextual_fail:
  "faults db = True # fs \<Longrightarrow>
   get_contextually_relevant_memories U now uid q limit db = ([], db\<lparr>faults := fs\<rparr>)"
  by (simp add: get_contextually_relevant_memories_def get_relevant_memories_fail)

lemma contextual_next:
  assumes "faults db = False # fs"
  shows "get_contextually_relevant_memories U now uid q limit db =
     (fst (get_contextually_relevant_memories U now uid q limit (db\<lparr>faults := []\<rparr>)),
      db\<lparr>faults := fs\<rparr>)"
proof -
  have e: "faults (db\<lparr>faults := []\<rparr>) = []" by simp
  show ?thesis
    unfolding get_contextually_relevant_memories_def get_relevant_memories_next [OF assms]
    by (cases "fst (get_relevant_memories uid (Some LONG_TERM) 50 (db\<lparr>faults := []\<rparr>))")
      (simp_all add: get_relevant_memories_def next_call_def Let_def)
qed

lemma contextual_fst:
  "fst (get_contextually_relevant_memories U now uid q limit db) =
     (case fst (get_relevant_memories uid (Some LONG_TERM) 50 db) of
        Inl e \<Rightarrow> []
      | Inr pool \<Rightarrow> rank_candidates U now q limit pool)"
  by (simp add: get_contextually_relevant_memories_def split: prod.splits sum.splits)

lemma contextual_same:
  "memories a = memories b \<Longrightarrow>
   fst (get_contextually_relevant_memories U now uid q limit (a\<lparr>faults := []\<rparr>))
     = fst (get_contextually_relevant_memories U now uid q limit (b\<lparr>faults := []\<rparr>))"
  unfolding contextual_fst
  using get_relevant_memories_same [of a b uid "Some LONG_TERM" 50]
  by (simp only:)

lemma fails_at_iff: "fails_at n fs = (\<exists>rest. fs = replicate n False @ True # rest)"
proof (induction n fs rule: fails_at.induct)
  case (1 n)
  show ?case by simp
next
  case (2 f fs)
  show ?case by auto
next
  case (3 n f fs)
  then show ?case by auto
qed

lemma store_message_first_fails:
  assumes "fails_at 0 (faults db)"
  shows "store_conversation_memory U now uid message (db, c)
           = (False, db\<lparr>faults := tl (faults db)\<rparr>, c)"
proof -
  from assms obtain fs where f: "faults db = True # fs"
    unfolding fails_at_iff by auto
  show ?thesis
    by (simp add: store_conversation_memory_def store_short_term_memory_def Let_def
        store_memory_fail [OF f] f)
qed

lemma store_message_second_fails:
  assumes "fails_at 1 (faults db)" and "7/10 \<le> calculate_importance_score U message"
  shows "\<not> fst (store_conversation_memory U now uid message (db, c))
         \<and> memories (fst (snd (store_conversation_memory U now uid message (db, c))))
             = memories (snd (store_short_term_memory now uid message
                                (calculate_importance_score U message) (db\<lparr>faults := []\<rparr>)))
         \<and> snd (snd (store_conversation_memory U now uid message (db, c))) = c"
proof -
  from assms(1) obtain fs where f: "faults db = False # True # fs"
    unfolding fails_at_iff by auto
  have e: "faults (db\<lparr>faults := []\<rparr>) = []" by simp
  show ?thesis
    using assms(2)
    by (simp add: store_conversation_memory_def store_short_term_memory_def
        store_long_term_memory_def Let_def store_memory_next [OF f] store_memory_ok [OF e]
        store_memory_fail)
qed

lemma context_query_fails:
  assumes "fails_at 0 (faults db)"
  shows "fst (get_relevant_context U now uid q limit db) = []"
proof -
  from assms obtain fs where f: "faults db = True # fs"
    unfolding fails_at_iff by auto
  show ?thesis
    by (simp add: get_relevant_context_def get_relevant_memories_fail [OF f])
qed

lemma context_update_fails:
  assumes "fst (get_relevant_memories uid (Some SHORT_TERM) (limit div 2) (db\<lparr>faults := []\<rparr>))
             = Inr ms"
    and "j < length ms" and "fails_at (Suc j) (faults db)"
  shows "fst (get_relevant_context U now uid q limit db) = []"
proof -
  from assms(3) obtain fs where f: "faults db = False # (replicate j False @ True # fs)"
    unfolding fails_at_iff by auto
  have f1: "faults (db\<lparr>faults := replicate j False @ True # fs\<rparr>) = replicate j False @ True # fs"
    by simp
  obtain r db2 where
    l: "access_loop now (ascii ''Recent: '') ms [] (db\<lparr>faults := replicate j False @ True # fs\<rparr>)
          = (r, db2)"
    by (cases "access_loop now (ascii ''Recent: '') ms []
                 (db\<lparr>faults := replicate j False @ True # fs\<rparr>)")
  with access_loop_fail [OF assms(2) f1, of now "ascii ''Recent: ''" "[]"]
  have "r = Inl StoreUnavailable" by simp
  with l show ?thesis
    unfolding get_relevant_context_def get_relevant_memories_next [OF f] assms(1)
    by simp
qed

lemma context_long_query_fails:
  assumes "fst (get_relevant_memories uid (Some SHORT_TERM) (limit div 2) (db\<lparr>faults := []\<rparr>))
             = Inr ms"
    and "fails_at (Suc (length ms)) (faults db)"
  shows "fst (get_relevant_context U now uid q limit db) = recent_items ms"
proof -
  from assms(2) obtain fs where f: "faults db = False # (replicate (length ms) False @ True # fs)"
    unfolding fails_at_iff by auto
  have f1: "faults (db\<lparr>faults := replicate (length ms) False @ True # fs\<rparr>)
              = replicate (length ms) False @ True # fs"
    by simp
  from access_loop_next [OF f1, of now "ascii ''Recent: ''" "[]"] obtain db2 where
    l: "access_loop now (ascii ''Recent: '') ms []
          (db\<lparr>faults := replicate (length ms) False @ True # fs\<rparr>)
        = (Inr (recent_items ms), db2)"
    and f2: "faults db2 = True # fs"
    unfolding recent_items_def by auto
  show ?thesis
    unfolding get_relevant_context_def get_relevant_memories_next [OF f] assms(1)
    by (simp add: l contextual_fail [OF f2])
qed

lemma context_long_update_fails:
  assumes short:
      "fst (get_relevant_memories uid (Some SHORT_TERM) (limit div 2) (db\<lparr>faults := []\<rparr>))
         = Inr ms"
    and ids: "object_ids db"
    and j: "j < length (fst (get_contextually_relevant_memories U now uid q (limit div 2)
                               (db\<lparr>faults := []\<rparr>)))"
    and fails: "fails_at (Suc (Suc (length ms + j))) (faults db)"
  shows "fst (get_relevant_context U now uid q limit db) = []"
proof -
  define ls where
    "ls = fst (get_contextually_relevant_memories U now uid q (limit div 2) (db\<lparr>faults := []\<rparr>))"
  from fails obtain fs where "faults db = replicate (Suc (Suc (length ms + j))) False @ True # fs"
    unfolding fails_at_iff by auto
  then have f: "faults db
                  = False # (replicate (length ms) False @ False # (replicate j False @ True # fs))"
    by (simp add: replicate_add replicate_append_same)
  define rest2 where "rest2 = replicate j False @ True # fs"
  define db1 where "db1 = db\<lparr>faults := replicate (length ms) False @ False # rest2\<rparr>"
  have f1: "faults db1 = replicate (length ms) False @ False # rest2"
    by (simp add: db1_def)
  have o1: "object_ids db1"
    using ids by (simp add: object_ids_def db1_def)
  have s1: "string_ids ms"
    using short by (rule get_relevant_memories_string_ids)
  from access_loop_next [OF f1, of now "ascii ''Recent: ''" "[]"] obtain db2 where
    l: "access_loop now (ascii ''Recent: '') ms [] db1 = (Inr (recent_items ms), db2)"
    and f2: "faults db2 = False # rest2"
    unfolding recent_items_def by auto
  have "memories db2 = memories db1"
    using access_loop_memories [OF o1 s1, of now "ascii ''Recent: ''" "[]"] l by simp
  then have m2: "memories db2 = memories db"
    by (simp add: db1_def)
  have "fst (get_contextually_relevant_memories U now uid q (limit div 2) (db2\<lparr>faults := []\<rparr>))
          = ls"
    unfolding ls_def using m2 by (rule contextual_same)
  with contextual_next [OF f2, of U now uid q "limit div 2"]
  have c: "get_contextually_relevant_memories U now uid q (limit div 2) db2
             = (ls, db2\<lparr>faults := rest2\<rparr>)"
    by simp
  have f3: "faults (db2\<lparr>faults := rest2\<rparr>) = replicate j False @ True # fs"
    by (simp add: rest2_def)
  from j have jl: "j < length ls"
    by (simp only: ls_def)
  obtain r db4 where
    l2: "access_loop now (ascii ''Background: '') ls (recent_items ms) (db2\<lparr>faults := rest2\<rparr>)
           = (r, db4)"
    by (cases "access_loop now (ascii ''Background: '') ls (recent_items ms)
                 (db2\<lparr>faults := rest2\<rparr>)")
  with access_loop_fail [OF jl f3, of now "ascii ''Background: ''" "recent_items ms"]
  have r: "r = Inl StoreUnavailable" by simp
  have q1: "get_relevant_memories uid (Some SHORT_TERM) (limit div 2) db = (Inr ms, db1)"
    unfolding get_relevant_memories_next [OF f] short db1_def rest2_def ..
  show ?thesis
    unfolding get_relevant_context_def q1
    by (simp add: l c l2 r)
qed

text \<open>
  C10 (as amended). When a call of the store raises, no public operation raises. Storing a
  message returns \<open>False\<close> with the cache unchanged and the store as it was before the
  failing step: unchanged when the short-term insertion raises, with the short-term record when
  the long-term insertion raises. The context retrieval returns the empty list when the
  short-term query raises, when the access update of a short-term memory raises, and when the
  access update of a ranked long-term memory raises; when the long-term query of the ranker
  raises, the ranker catches it and the context retrieval returns the short-term lines alone.
\<close>

theorem store_failure_degrades:
  "(fails_at 0 (faults db) \<longrightarrow>
      \<not> fst (store_conversation_memory U now uid message (db, c))
      \<and> memories (fst (snd (store_conversation_memory U now uid message (db, c)))) = memories db
      \<and> snd (snd (store_conversation_memory U now uid message (db, c))) = c)
   \<and> (fails_at 1 (faults db) \<and> 7/10 \<le> calculate_importance_score U message \<longrightarrow>
      \<not> fst (store_conversation_memory U now uid message (db, c))
      \<and> memories (fst (snd (store_conversation_memory U now uid message (db, c))))
          = memories (snd (store_short_term_memory now uid message
                             (calculate_importance_score U message) (db\<lparr>faults := []\<rparr>)))
      \<and> snd (snd (store_conversation_memory U now uid message (db, c))) = c)
   \<and> (fails_at 0 (faults db) \<longrightarrow> fst (get_relevant_context U now uid q limit db) = [])
   \<and> (fst (get_relevant_memories uid (Some SHORT_TERM) (limit div 2) (db\<lparr>faults := []\<rparr>))
          = Inr ms
        \<and> j < length ms \<and> fails_at (Suc j) (faults db) \<longrightarrow>
      fst (get_relevant_context U now uid q limit db) = [])
   \<and> (fst (get_relevant_memories uid (Some SHORT_TERM) (limit div 2) (db\<lparr>faults := []\<rparr>))
          = Inr ms
        \<and> fails_at (Suc (length ms)) (faults db) \<longrightarrow>
      fst (get_relevant_context U now uid q limit db) = recent_items ms)
   \<and> (fst (get_relevant_memories uid (Some SHORT_TERM) (limit div 2) (db\<lparr>faults := []\<rparr>))
          = Inr ms
        \<and> object_ids db
        \<and> j < length (fst (get_contextually_relevant_memories U now uid q (limit div 2)
                              (db\<lparr>faults := []\<rparr>)))
        \<and> fails_at (Suc (Suc (length ms + j))) (faults db) \<longrightarrow>
      fst (get_relevant_context U now uid q limit db) = [])"
proof (intro conjI impI)
  assume "fails_at 0 (faults db)"
  then have "store_conversation_memory U now uid message (db, c)
               = (False, db\<lparr>faults := tl (faults db)\<rparr>, c)"
    by (rule store_message_first_fails)
  then show "\<not> fst (store_conversation_memory U now uid message (db, c))"
    and "memories (fst (snd (store_conversation_memory U now uid message (db, c)))) = memories db"
    and "snd (snd (store_conversation_memory U now uid message (db, c))) = c"
    by simp_all
next
  assume a: "fails_at 1 (faults db) \<and> 7/10 \<le> calculate_importance_score U message"
  then have "\<not> fst (store_conversation_memory U now uid message (db, c))
         \<and> memories (fst (snd (store_conversation_memory U now uid message (db, c))))
             = memories (snd (store_short_term_memory now uid message
                                (calculate_importance_score U message) (db\<lparr>faults := []\<rparr>)))
         \<and> snd (snd (store_conversation_memory U now uid message (db, c))) = c"
    by (intro store_message_second_fails) simp_all
  then show "\<not> fst (store_conversation_memory U now uid message (db, c))"
    and "memories (fst (snd (store_conversation_memory U now uid message (db, c))))
          = memories (snd (store_short_term_memory now uid message
                             (calculate_importance_score U message) (db\<lparr>faults := []\<rparr>)))"
    and "snd (snd (store_conversation_memory U now uid message (db, c))) = c"
    by simp_all
next
  assume "fails_at 0 (faults db)"
  then show "fst (get_relevant_context U now uid q limit db) = []"
    by (rule context_query_fails)
next
  assume "fst (get_relevant_memories uid (Some SHORT_TERM) (limit div 2) (db\<lparr>faults := []\<rparr>))
            = Inr ms
          \<and> j < length ms \<and> fails_at (Suc j) (faults db)"
  then show "fst (get_relevant_context U now uid q limit db) = []"
    by (intro context_update_fails [of uid limit db ms j]) simp_all
next
  assume "fst (get_relevant_memories uid (Some SHORT_TERM) (limit div 2) (db\<lparr>faults := []\<rparr>))
            = Inr ms
          \<and> fails_at (Suc (length ms)) (faults db)"
  then show "fst (get_relevant_context U now uid q limit db) = recent_items ms"
    by (intro context_long_query_fails) simp_all
next
  assume "fst (get_relevant_memories uid (Some SHORT_TERM) (limit div 2) (db\<lparr>faults := []\<rparr>))
            = Inr ms
          \<and> object_ids db
          \<and> j < length (fst (get_contextually_relevant_memories U now uid q (limit div 2)
                                (db\<lparr>faults := []\<rparr>)))
          \<and> fails_at (Suc (Suc (length ms + j))) (faults db)"
  then show "fst (get_relevant_context U now uid q limit db) = []"
    by (intro context_long_update_fails [of uid limit db ms j]) simp_all
qed

lemma hello_store_no_faults: "hello_store\<lparr>faults := []\<rparr> = hello_store"
  by (simp add: hello_store_def)

lemma ranker_store_no_faults: "ranker_store\<lparr>faults := []\<rparr> = ranker_store"
  by (simp add: ranker_store_def)

lemma ranker_store_short_query:
  "get_relevant_memories (ascii ''u'') (Some SHORT_TERM) 3 ranker_store = (Inr [], ranker_store)"
  by (simp add: get_relevant_memories_def next_call_def ranker_store_def recent_memory_def
      cutoff_memory_def faint_memory_def fainter_memory_def long_term_memory_def mongo_limit_def)

lemma ranker_store_object_ids: "object_ids ranker_store"
  by (simp add: object_ids_def ranker_store_def recent_memory_def cutoff_memory_def
      faint_memory_def fainter_memory_def long_term_memory_def)

lemma sad_emotion_score: "calculate_importance_score ascii_db sad_emotion_message = 7/10"
proof -
  have "raw_importance_score ascii_db sad_emotion_message
          = raw_importance_score ascii_db plain_message
            + emotion_step (Some (ascii ''sad'')) 0"
    using raw_split_emotion [of ascii_db sad_emotion_message]
    by (simp add: sad_emotion_message_def plain_none)
  also have "\<dots> = 7/10"
    by (simp add: plain_raw emotion_step_def emotion_weights_def ascii_def)
  finally show ?thesis
    by (simp add: calculate_importance_score_def)
qed

lemma recent_items_hello:
  "recent_items [hello_memory i] = [ascii ''Recent: user: hello'']"
  by (simp add: recent_items_def hello_memory_def ascii_def)

text \<open>
  C10 as stated fails: on the store with one short-term record the short-term query and the
  access update succeed and the long-term query raises; the context retrieval returns the
  short-term line, not the empty list.
\<close>

theorem store_failure_counterexample:
  "fails_at 2 (faults (hello_store\<lparr>faults := [False, False, True]\<rparr>))
   \<and> fst (get_relevant_context ascii_db 1000000 (ascii ''u'') (ascii ''hello'') 10
           (hello_store\<lparr>faults := [False, False, True]\<rparr>))
       = [ascii ''Recent: user: hello'']
   \<and> fst (get_relevant_context ascii_db 1000000 (ascii ''u'') (ascii ''hello'') 10
           (hello_store\<lparr>faults := [False, False, True]\<rparr>)) \<noteq> []"
proof -
  have f: "fails_at (Suc (length [hello_memory (IdStr (str_of_oid 0))]))
             (faults (hello_store\<lparr>faults := [False, False, True]\<rparr>))"
    by (simp add: numeral_2_eq_2)
  have s: "fst (get_relevant_memories (ascii ''u'') (Some SHORT_TERM) (10 div 2)
                  (hello_store\<lparr>faults := [False, False, True]\<rparr>\<lparr>faults := []\<rparr>))
             = Inr [hello_memory (IdStr (str_of_oid 0))]"
    by (simp add: hello_store_no_faults hello_short_query)
  from context_long_query_fails [OF s f, of ascii_db 1000000 "ascii ''hello''"]
  have "fst (get_relevant_context ascii_db 1000000 (ascii ''u'') (ascii ''hello'') 10
               (hello_store\<lparr>faults := [False, False, True]\<rparr>))
          = [ascii ''Recent: user: hello'']"
    by (simp only: recent_items_hello)
  then show ?thesis
    by (simp add: numeral_2_eq_2)
qed

text \<open>
  The six cases: the first insertion raises; the long-term insertion of a message of score 0.7
  raises; the short-term query raises; the access update of the short-term record raises; the
  long-term query raises; the access update of the first ranked long-term memory raises.
\<close>

theorem store_failure_degrades_witness:
  "\<not> fst (store_conversation_memory ascii_db 0 (ascii ''u'') plain_message
             (empty_store\<lparr>faults := [True]\<rparr>, Map.empty))
   \<and> memories (fst (snd (store_conversation_memory ascii_db 0 (ascii ''u'') plain_message
                           (empty_store\<lparr>faults := [True]\<rparr>, Map.empty)))) = []
   \<and> \<not> fst (store_conversation_memory ascii_db 0 (ascii ''u'') sad_emotion_message
               (empty_store\<lparr>faults := [False, True]\<rparr>, Map.empty))
   \<and> map memory_type
         (memories (fst (snd (store_conversation_memory ascii_db 0 (ascii ''u'') sad_emotion_message
                               (empty_store\<lparr>faults := [False, True]\<rparr>, Map.empty)))))
       = [SHORT_TERM]
   \<and> fst (get_relevant_context ascii_db 1000000 (ascii ''u'') (ascii ''hello'') 10
           (hello_store\<lparr>faults := [True]\<rparr>)) = []
   \<and> fst (get_relevant_context ascii_db 1000000 (ascii ''u'') (ascii ''hello'') 10
           (hello_store\<lparr>faults := [False, True]\<rparr>)) = []
   \<and> fst (get_relevant_context ascii_db 1000000 (ascii ''u'') (ascii ''hello'') 10
           (hello_store\<lparr>faults := [False, False, True]\<rparr>)) = [ascii ''Recent: user: hello'']
   \<and> fst (get_relevant_context ascii_db hundred_days (ascii ''u'') (ascii ''aaa bbb'') 6
           (ranker_store\<lparr>faults := [False, False, True]\<rparr>)) = []"
proof -
  have 1: "\<not> fst (store_conversation_memory ascii_db 0 (ascii ''u'') plain_message
                    (empty_store\<lparr>faults := [True]\<rparr>, Map.empty))
           \<and> memories (fst (snd (store_conversation_memory ascii_db 0 (ascii ''u'') plain_message
                               (empty_store\<lparr>faults := [True]\<rparr>, Map.empty)))) = []"
    using store_failure_degrades
      [where db = "empty_store\<lparr>faults := [True]\<rparr>" and U = ascii_db and now = 0
         and uid = "ascii ''u''" and message = plain_message and c = Map.empty]
    by (simp add: empty_store_def)
  have e: "empty_store\<lparr>faults := [False, True]\<rparr>\<lparr>faults := []\<rparr> = empty_store"
    by (simp add: empty_store_def)
  have st: "map memory_type (memories (snd (store_short_term_memory 0 (ascii ''u'')
              sad_emotion_message (calculate_importance_score ascii_db sad_emotion_message)
              empty_store))) = [SHORT_TERM]"
    by (simp add: store_short_term_memory_def Let_def store_memory_def next_call_def
        empty_store_def)
  have 2: "\<not> fst (store_conversation_memory ascii_db 0 (ascii ''u'') sad_emotion_message
                    (empty_store\<lparr>faults := [False, True]\<rparr>, Map.empty))
           \<and> map memory_type
                (memories (fst (snd (store_conversation_memory ascii_db 0 (ascii ''u'')
                    sad_emotion_message (empty_store\<lparr>faults := [False, True]\<rparr>, Map.empty)))))
              = [SHORT_TERM]"
    using store_failure_degrades
      [where db = "empty_store\<lparr>faults := [False, True]\<rparr>" and U = ascii_db and now = 0
         and uid = "ascii ''u''" and message = sad_emotion_message and c = Map.empty]
      st
    by (simp add: e sad_emotion_score)
  have 3: "fst (get_relevant_context ascii_db 1000000 (ascii ''u'') (ascii ''hello'') 10
                  (hello_store\<lparr>faults := [True]\<rparr>)) = []"
    using store_failure_degrades
      [where db = "hello_store\<lparr>faults := [True]\<rparr>" and U = ascii_db and now = 1000000
         and uid = "ascii ''u''" and q = "ascii ''hello''" and limit = 10]
    by simp
  have s: "fst (get_relevant_memories (ascii ''u'') (Some SHORT_TERM) (10 div 2) hello_store)
             = Inr [hello_memory (IdStr (str_of_oid 0))]"
    by (simp add: hello_short_query)
  have 4: "fst (get_relevant_context ascii_db 1000000 (ascii ''u'') (ascii ''hello'') 10
                  (hello_store\<lparr>faults := [False, True]\<rparr>)) = []"
    using store_failure_degrades
      [where db = "hello_store\<lparr>faults := [False, True]\<rparr>" and U = ascii_db and now = 1000000
         and uid = "ascii ''u''" and q = "ascii ''hello''" and limit = 10
         and ms = "[hello_memory (IdStr (str_of_oid 0))]" and j = 0]
      s
    by (simp add: hello_store_no_faults)
  have 5: "fst (get_relevant_context ascii_db 1000000 (ascii ''u'') (ascii ''hello'') 10
                  (hello_store\<lparr>faults := [False, False, True]\<rparr>))
             = [ascii ''Recent: user: hello'']"
    using store_failure_degrades
      [where db = "hello_store\<lparr>faults := [False, False, True]\<rparr>" and U = ascii_db
         and now = 1000000 and uid = "ascii ''u''" and q = "ascii ''hello''" and limit = 10
         and ms = "[hello_memory (IdStr (str_of_oid 0))]"]
      s
    by (simp add: hello_store_no_faults recent_items_hello)
  have l: "(6::int) div 2 = 3" by simp
  have 6: "fst (get_relevant_context ascii_db hundred_days (ascii ''u'') (ascii ''aaa bbb'') 6
                  (ranker_store\<lparr>faults := [False, False, True]\<rparr>)) = []"
    using store_failure_degrades
      [where db = "ranker_store\<lparr>faults := [False, False, True]\<rparr>" and U = ascii_db
         and now = hundred_days and uid = "ascii ''u''" and q = "ascii ''aaa bbb''" and limit = 6
         and ms = "[]" and j = 0]
      ranker_store_object_ids
    by (simp add: l ranker_store_no_faults ranker_store_short_query ranker_store_context
        object_ids_def)
  from 1 2 3 4 5 6 show ?thesis
    by blast
qed

section \<open>The date format: examples\<close>

lemma civil_from_days_examples:
  "civil_from_days 19737 = (2024, 1, 15)"
  "civil_from_days (- 354587) = (999, 3, 5)"
  by code_simp+

lemma decimal_examples:
  "decimal 2024 = ascii ''2024''"
  "decimal 999 = ascii ''999''"
  by (simp_all add: decimal.simps [of 2024] decimal.simps [of 202] decimal.simps [of 20]
      decimal.simps [of 2] decimal.simps [of 999] decimal.simps [of 99] decimal.simps [of 9]
      ascii_def)

text \<open>A time on 15 January 2024, and midnight of 5 March 999.\<close>

lemma strftime_ymd_examples:
  "strftime_ymd (19737 * us_per_day + 1) = ascii ''2024-01-15''"
  "strftime_ymd (- 354587 * us_per_day) = ascii ''999-03-05''"
proof -
  have d: "(19737 * us_per_day + 1) div us_per_day = 19737"
    "(- 354587 * us_per_day) div us_per_day = - 354587"
    by (simp_all add: us_per_day_def)
  have p: "pad2 1 = ascii ''01''" "pad2 15 = ascii ''15''" "pad2 3 = ascii ''03''"
    "pad2 5 = ascii ''05''"
    by (simp_all add: pad2_def digit_char_def ascii_def)
  have n: "nat 2024 = 2024" "nat 999 = 999"
    by simp_all
  show "strftime_ymd (19737 * us_per_day + 1) = ascii ''2024-01-15''"
    unfolding strftime_ymd_def d civil_from_days_examples prod.case n decimal_examples p
    by (simp add: ascii_def)
  show "strftime_ymd (- 354587 * us_per_day) = ascii ''999-03-05''"
    unfolding strftime_ymd_def d civil_from_days_examples prod.case n decimal_examples p
    by (simp add: ascii_def)
qed

end
